theory Spec2Isabelle
  imports Complex_Main "HOL-Library.AList"
begin

section \<open>JavaScript values and failures\<close>

text \<open>
  The engine is JavaScript. Values that cross the functions modelled here are JSON-shaped:
  the sidecar data of a section, the schema of a rendered section, the argument of a filter.
  A JavaScript string is modelled as a \<open>string\<close> whose characters are its code units;
  only code units below 256 are expressible. An object is an association list from
  property names to values, in insertion order.

  A number is an IEEE double. A finite double has an exact rational value (\<open>Fin\<close>; both
  zeros are \<open>Fin 0\<close>). Arithmetic on doubles and their printing are not modelled: the
  functions that need them take them as parameters.
\<close>

datatype jsnum = NaN | PosInf | NegInf | Fin rat

datatype jsval =
    JUndefined
  | JNull
  | JBool bool
  | JNum jsnum
  | JStr string
  | JArr "jsval list"
  | JObj "(string \<times> jsval) list"

text \<open>
  A thrown exception or a rejected promise. \<open>Error msg\<close> is \<open>new Error(msg)\<close> of the
  source, \<open>TypeError\<close> is the one the language raises on a property read of \<open>null\<close> or
  \<open>undefined\<close> and on a call of a non-function, \<open>HostError\<close> is any failure of a
  collaborator that is not part of the engine (file system, JSON parser, template
  engine, stylesheet compiler).
\<close>

datatype error = Error string | TypeError | HostError string

text \<open>ToBoolean of the language: the falsy values are \<open>undefined\<close>, \<open>null\<close>,
  \<open>false\<close>, \<open>0\<close>, \<open>NaN\<close> and the empty string.\<close>

fun ToBoolean :: "jsval \<Rightarrow> bool" where
  "ToBoolean JUndefined = False"
| "ToBoolean JNull = False"
| "ToBoolean (JBool b) = b"
| "ToBoolean (JNum NaN) = False"
| "ToBoolean (JNum (Fin q)) = (q \<noteq> 0)"
| "ToBoolean (JNum PosInf) = True"
| "ToBoolean (JNum NegInf) = True"
| "ToBoolean (JStr s) = (s \<noteq> [])"
| "ToBoolean (JArr xs) = True"
| "ToBoolean (JObj kvs) = True"

section \<open>Tokens and the block scanner\<close>

text \<open>
  A token of the tokenizer: \<open>name\<close> is the tag name of a tag token and is absent
  (\<open>undefined\<close>) on every other token; \<open>getText\<close> is the token's raw text.
\<close>

record token =
  name :: "string option"
  getText :: string

text \<open>
  Every block tag parses with the same loop:
  \<^verbatim>\<open>
    this.tokens = [];
    const stream = this.liquid.parser.parseStream(remainTokens);
    stream
      .on('token', (token) => {
        if (token.name === 'endschema') { stream.stop(); }
        else { this.tokens.push(token); }
      })
      .on('end', () => { throw new Error(`tag ${tagToken.getText()} not closed`) });
    stream.start();
  \<close>
  \<open>start\<close> shifts tokens off \<open>remainTokens\<close> one at a time and hands each to the
  \<open>token\<close> handler until \<open>stop\<close> is requested; when the tokens run out without a
  stop it fires \<open>end\<close>. \<open>scan_block\<close> is this loop: the accumulator is
  \<open>this.tokens\<close>, the result is the buffer together with what is left of
  \<open>remainTokens\<close>, and \<open>None\<close> is the firing of \<open>end\<close>.
\<close>

fun scan_block :: "string \<Rightarrow> token list \<Rightarrow> token list \<Rightarrow> (token list \<times> token list) option" where
  "scan_block endName acc [] = None"
| "scan_block endName acc (t # ts) =
     (if name t = Some endName then Some (acc, ts)
      else scan_block endName (acc @ [t]) ts)"

record block_tag =
  tokens :: "token list"

text \<open>\<open>schema.parse\<close> of the full engine (src/unnamed/part_000, lines 255-272).\<close>

definition schema_parse :: "token \<Rightarrow> token list \<Rightarrow> error + (block_tag \<times> token list)" where
  "schema_parse tagToken remainTokens =
     (case scan_block ''endschema'' [] remainTokens of
        None \<Rightarrow> Inl (Error (''tag '' @ getText tagToken @ '' not closed''))
      | Some (buf, rest) \<Rightarrow> Inr (\<lparr>tokens = buf\<rparr>, rest))"

text \<open>\<open>schema.parse\<close> of the reduced engine (src/lib/engine_liquid.js, lines 175-192).\<close>

definition schema_parse_reduced :: "token \<Rightarrow> token list \<Rightarrow> error + (block_tag \<times> token list)" where
  "schema_parse_reduced tagToken remainTokens =
     (case scan_block ''endschema'' [] remainTokens of
        None \<Rightarrow> Inl (Error (''tag '' @ getText tagToken @ '' not closed''))
      | Some (buf, rest) \<Rightarrow> Inr (\<lparr>tokens = buf\<rparr>, rest))"

text \<open>
  \<open>schema.render\<close> of the full engine (src/unnamed/part_000, lines 273-276):
  \<^verbatim>\<open>
    const content = this.tokens.map(token => token.getText()).join('');
    return `<script id="schema" type="application/json">${content}</script>`;
  \<close>
\<close>

definition schema_open :: string where
  \<open>schema_open = ''<script id="schema" type="application/json">''\<close>

definition script_close :: string where
  "script_close = ''</script>''"

definition schema_render :: "block_tag \<Rightarrow> jsval" where
  "schema_render this =
     (let content = concat (map getText (tokens this))
      in JStr (schema_open @ content @ script_close))"

text \<open>
  \<open>schema.render\<close> of the reduced engine (src/lib/engine_liquid.js, lines 193-195):
  \<^verbatim>\<open>
    render: function (scope, hash) { return null; }
  \<close>
\<close>

definition schema_render_reduced :: "block_tag \<Rightarrow> jsval" where
  "schema_render_reduced this = JNull"

section \<open>Objects\<close>

text \<open>The decimal numeral of an array index, as the property key the language gives it.\<close>

fun index_key :: "nat \<Rightarrow> string" where
  "index_key n =
     (if n < 10 then [''0123456789'' ! n]
      else index_key (n div 10) @ [''0123456789'' ! (n mod 10)])"

fun indexed :: "nat \<Rightarrow> jsval list \<Rightarrow> (string \<times> jsval) list" where
  "indexed n [] = []"
| "indexed n (x # xs) = (index_key n, x) # indexed (Suc n) xs"

text \<open>
  The own enumerable properties that an object spread \<^verbatim>\<open>{...v}\<close> copies: those of an
  object, the elements of an array under their indices, the code units of a string under
  their indices, and nothing for \<open>undefined\<close>, \<open>null\<close>, a boolean or a number.
\<close>

fun spread :: "jsval \<Rightarrow> (string \<times> jsval) list" where
  "spread (JObj kvs) = kvs"
| "spread (JArr xs) = indexed 0 xs"
| "spread (JStr s) = indexed 0 (map (\<lambda>c. JStr [c]) s)"
| "spread v = []"

text \<open>
  A property read \<^verbatim>\<open>v.key\<close> for the keys the engine reads (\<open>section\<close>, \<open>blocks\<close>,
  \<open>name\<close>, \<open>class\<close>): an own property of an object, and \<open>undefined\<close> when the object
  has none or when \<open>v\<close> is an array, a string, a number or a boolean (none of their
  prototypes has these keys). On \<open>undefined\<close> and \<open>null\<close> the read raises a TypeError.
\<close>

fun get_prop :: "jsval \<Rightarrow> string \<Rightarrow> error + jsval" where
  "get_prop JUndefined key = Inl TypeError"
| "get_prop JNull key = Inl TypeError"
| "get_prop (JObj kvs) key = Inr (case map_of kvs key of None \<Rightarrow> JUndefined | Some v \<Rightarrow> v)"
| "get_prop v key = Inr JUndefined"

section \<open>The quoted-argument test\<close>

text \<open>
  Regular expressions without anchors, matched by derivatives. \<open>Lit c\<close> is the character
  \<open>c\<close>, \<open>NotLit c\<close> the class \<^verbatim>\<open>[^c]\<close>.
\<close>

datatype regex =
    Empty
  | Eps
  | Lit char
  | NotLit char
  | Cat regex regex
  | Alt regex regex
  | Star regex

fun nullable :: "regex \<Rightarrow> bool" where
  "nullable Empty = False"
| "nullable Eps = True"
| "nullable (Lit c) = False"
| "nullable (NotLit c) = False"
| "nullable (Cat r s) = (nullable r \<and> nullable s)"
| "nullable (Alt r s) = (nullable r \<or> nullable s)"
| "nullable (Star r) = True"

fun deriv :: "char \<Rightarrow> regex \<Rightarrow> regex" where
  "deriv x Empty = Empty"
| "deriv x Eps = Empty"
| "deriv x (Lit c) = (if x = c then Eps else Empty)"
| "deriv x (NotLit c) = (if x = c then Empty else Eps)"
| "deriv x (Cat r s) =
     (if nullable r then Alt (Cat (deriv x r) s) (deriv x s) else Cat (deriv x r) s)"
| "deriv x (Alt r s) = Alt (deriv x r) (deriv x s)"
| "deriv x (Star r) = Cat (deriv x r) (Star r)"

fun matches :: "regex \<Rightarrow> string \<Rightarrow> bool" where
  "matches r [] = nullable r"
| "matches r (x # xs) = matches (deriv x r) xs"

text \<open>
  A pattern is an alternation of branches; a branch is a body with or without \<^verbatim>\<open>^\<close> in
  front and \<^verbatim>\<open>$\<close> behind. \<open>exec\<close> of a pattern without flags finds a match when some
  substring of the subject matches some branch, the substring starting at the start of
  the subject for a branch with \<^verbatim>\<open>^\<close> and ending at its end for a branch with \<^verbatim>\<open>$\<close>.
\<close>

record branch =
  bol :: bool
  body :: regex
  eol :: bool

definition branch_exec :: "branch \<Rightarrow> string \<Rightarrow> bool" where
  "branch_exec b s =
     list_ex (\<lambda>i. list_ex (\<lambda>j.
         (if bol b then i = 0 else True) \<and> (if eol b then j = length s else True) \<and>
         matches (body b) (take (j - i) (drop i s)))
       [i ..< Suc (length s)]) [0 ..< Suc (length s)]"

definition regex_exec :: "branch list \<Rightarrow> string \<Rightarrow> bool" where
  "regex_exec p s = list_ex (\<lambda>b. branch_exec b s) p"

text \<open>
  \<^verbatim>\<open>const quoted = /^'[^']*'|"[^"]*"$/;\<close> (section.parse and stylesheet.render). The
  alternation binds weaker than the anchors: the first branch carries the \<^verbatim>\<open>^\<close>, the
  second the \<^verbatim>\<open>$\<close>.
\<close>

definition quoted :: "branch list" where
  "quoted =
     [\<lparr>bol = True, body = Cat (Lit (CHR 0x27)) (Cat (Star (NotLit (CHR 0x27))) (Lit (CHR 0x27))),
       eol = False\<rparr>,
      \<lparr>bol = False, body = Cat (Lit (CHR 0x22)) (Cat (Star (NotLit (CHR 0x22))) (Lit (CHR 0x22))),
       eol = True\<rparr>]"

text \<open>\<^verbatim>\<open>s.slice(1, -1)\<close>: the string without its first and its last code unit.\<close>

definition slice_1_m1 :: "string \<Rightarrow> string" where
  "slice_1_m1 s = take (length s - 2) (drop 1 s)"

section \<open>Strings\<close>

text \<open>
  \<open>split_first pat s\<close> is the text before and the text after the first occurrence of
  \<open>pat\<close> in \<open>s\<close>, \<open>split_last\<close> the same for the last occurrence.
\<close>

fun split_first :: "string \<Rightarrow> string \<Rightarrow> (string \<times> string) option" where
  "split_first pat [] = (if pat = [] then Some ([], []) else None)"
| "split_first pat (c # cs) =
     (if take (length pat) (c # cs) = pat then Some ([], drop (length pat) (c # cs))
      else (case split_first pat cs of
              None \<Rightarrow> None
            | Some (pre, post) \<Rightarrow> Some (c # pre, post)))"

definition split_last :: "string \<Rightarrow> string \<Rightarrow> (string \<times> string) option" where
  "split_last pat s =
     (case split_first (rev pat) (rev s) of
        None \<Rightarrow> None
      | Some (post, pre) \<Rightarrow> Some (rev pre, rev post))"

text \<open>\<^verbatim>\<open>s.replace(pat, rep)\<close> with a string pattern: the first occurrence only.\<close>

definition replace_first :: "string \<Rightarrow> string \<Rightarrow> string \<Rightarrow> string" where
  "replace_first pat rep s =
     (case split_first pat s of
        None \<Rightarrow> s
      | Some (pre, post) \<Rightarrow> pre @ rep @ post)"


text \<open>
  \<open>toLowerCase\<close> on code units below 256: the letters A-Z and the letters U+00C0-U+00DE
  other than the multiplication sign U+00D7 move up by 32.
\<close>

definition lower_unit :: "char \<Rightarrow> char" where
  "lower_unit c =
     (let n = (of_char c :: nat)
      in if (65 \<le> n \<and> n \<le> 90) \<or> (192 \<le> n \<and> n \<le> 222 \<and> n \<noteq> 215)
         then char_of (n + 32) else c)"

definition toLowerCase :: "string \<Rightarrow> string" where
  "toLowerCase s = map lower_unit s"

text \<open>
  The class \<^verbatim>\<open>[\w\u00C0-\u024f]\<close> on code units below 256: a letter, a digit, the
  underscore, or a code unit from U+00C0 up.
\<close>

definition slug_unit :: "char \<Rightarrow> bool" where
  "slug_unit c =
     (let n = (of_char c :: nat)
      in (48 \<le> n \<and> n \<le> 57) \<or> (65 \<le> n \<and> n \<le> 90) \<or> n = 95 \<or> (97 \<le> n \<and> n \<le> 122) \<or> 192 \<le> n)"

text \<open>\<^verbatim>\<open>.replace(/[^\w\u00C0-\u024f]+/g, "-")\<close>: every maximal run of code units outside
  the class becomes one hyphen.\<close>

function hyphenate :: "string \<Rightarrow> string" where
  "hyphenate [] = []"
| "hyphenate (c # cs) =
     (if slug_unit c then c # hyphenate cs
      else CHR ''-'' # hyphenate (dropWhile (\<lambda>d. \<not> slug_unit d) cs))"
  by pat_completeness auto
termination
  by (relation "measure length") (auto simp: less_Suc_eq_le length_dropWhile_le)

text \<open>\<^verbatim>\<open>.replace(/^-+|-+$/g, '')\<close>: the hyphens at the start and those at the end go.\<close>

definition trim_hyphens :: "string \<Rightarrow> string" where
  "trim_hyphens s =
     rev (dropWhile (\<lambda>c. c = CHR ''-'') (rev (dropWhile (\<lambda>c. c = CHR ''-'') s)))"

text \<open>
  A template literal converts a value to a string. The printing of a number is left to
  \<open>numberToString\<close>. An array prints its elements joined by commas, \<open>null\<close> and
  \<open>undefined\<close> among them as nothing. A JSON object prints as \<^verbatim>\<open>[object Object]\<close>,
  except that an own property \<open>toString\<close> (never a function in JSON data) shadows the
  inherited method and the conversion raises a TypeError.
\<close>

fun ToString :: "(jsnum \<Rightarrow> string) \<Rightarrow> jsval \<Rightarrow> error + string"
  and join_elements :: "(jsnum \<Rightarrow> string) \<Rightarrow> jsval list \<Rightarrow> error + string" where
  "ToString numberToString JUndefined = Inr ''undefined''"
| "ToString numberToString JNull = Inr ''null''"
| "ToString numberToString (JBool b) = Inr (if b then ''true'' else ''false'')"
| "ToString numberToString (JNum n) = Inr (numberToString n)"
| "ToString numberToString (JStr s) = Inr s"
| "ToString numberToString (JArr xs) = join_elements numberToString xs"
| "ToString numberToString (JObj kvs) =
     (if map_of kvs ''toString'' = None then Inr ''[object Object]'' else Inl TypeError)"
| "join_elements numberToString [] = Inr []"
| "join_elements numberToString (x # xs) =
     (case (if x = JUndefined \<or> x = JNull then Inr [] else ToString numberToString x) of
        Inl e \<Rightarrow> Inl e
      | Inr a \<Rightarrow>
          (if xs = [] then Inr a
           else (case join_elements numberToString xs of
                   Inl e \<Rightarrow> Inl e
                 | Inr b \<Rightarrow> Inr (a @ '','' @ b))))"

text \<open>A template literal on a variable that may never have been assigned.\<close>

definition interpolate :: "string option \<Rightarrow> string" where
  "interpolate v = (case v of None \<Rightarrow> ''undefined'' | Some s \<Rightarrow> s)"

section \<open>Collaborators\<close>

text \<open>
  What the engine calls and does not implement. A failure of a collaborator is a value
  \<open>Inl\<close>; for the template engine and the stylesheet compiler, whose calls return
  promises, \<open>Inl\<close> is a rejected promise.
\<close>

record files =
  cwd :: string
  path_join :: "string list \<Rightarrow> string"
  existsSync :: "string \<Rightarrow> bool"
  readFileSync :: "string \<Rightarrow> error + string"
  JSON_parse :: "string \<Rightarrow> error + jsval"

record liquid =
  parseAndRender :: "string \<Rightarrow> jsval \<Rightarrow> jsval \<Rightarrow> error + string"
  renderFile :: "string \<Rightarrow> jsval \<Rightarrow> error + string"

section \<open>The section tag\<close>

record section_tag =
  namestr :: string
  template :: "string option"
  sectionData :: jsval

text \<open>
  \<^verbatim>\<open>
    for (const directoryPath of allPaths) {
      const filePath = path.join(process.cwd(), directoryPath, `${this.template}.json`);
      if (fs.existsSync(filePath)) { sectionDataFilePath = filePath; break; }
    }
  \<close>
\<close>

fun find_sidecar :: "files \<Rightarrow> string \<Rightarrow> string list \<Rightarrow> string option" where
  "find_sidecar fs file [] = None"
| "find_sidecar fs file (directoryPath # dirs) =
     (let filePath = path_join fs [cwd fs, directoryPath, file]
      in if existsSync fs filePath then Some filePath else find_sidecar fs file dirs)"

text \<open>
  \<^verbatim>\<open>blocks.map(block => ({ ...block, id: Math.random().toString(36).substr(2, 9) }))\<close>.
  \<open>random k\<close> is the value of the \<open>k\<close>-th evaluation of
  \<^verbatim>\<open>Math.random().toString(36).substr(2, 9)\<close> during the parse, counted from 0.
\<close>

fun stamp_blocks :: "(nat \<Rightarrow> string) \<Rightarrow> nat \<Rightarrow> jsval list \<Rightarrow> jsval list" where
  "stamp_blocks random k [] = []"
| "stamp_blocks random k (block # blocks) =
     JObj (AList.update ''id'' (JStr (random k)) (spread block))
       # stamp_blocks random (Suc k) blocks"

text \<open>
  \<^verbatim>\<open>
    if (this.sectionData && this.sectionData.section) {
      this.sectionData.section = {
        ...this.sectionData.section,
        id: Math.random().toString(36).substr(2, 9),
        blocks: this.sectionData.section.blocks ? this.sectionData.section.blocks.map(...) : []
      };
    }
  \<close>
  The guard holds only of an object with a truthy own property \<open>section\<close>: every other
  truthy value reads \<open>section\<close> as \<open>undefined\<close>. The identifier of the section is drawn
  before \<open>blocks\<close> is looked at. A truthy \<open>blocks\<close> that is not an array has no \<open>map\<close>
  to call, and the call raises a TypeError.
\<close>

definition stamp_blocks_of :: "(nat \<Rightarrow> string) \<Rightarrow> jsval \<Rightarrow> error + jsval" where
  "stamp_blocks_of random section =
     (case get_prop section ''blocks'' of
        Inl e \<Rightarrow> Inl e
      | Inr blocks \<Rightarrow>
          (if ToBoolean blocks
           then (case blocks of
                   JArr bs \<Rightarrow> Inr (JArr (stamp_blocks random 1 bs))
                 | _ \<Rightarrow> Inl TypeError)
           else Inr (JArr [])))"

fun stamp_section :: "(nat \<Rightarrow> string) \<Rightarrow> jsval \<Rightarrow> error + jsval" where
  "stamp_section random (JObj kvs) =
     (case map_of kvs ''section'' of
        None \<Rightarrow> Inr (JObj kvs)
      | Some section \<Rightarrow>
          (if ToBoolean section
           then (case stamp_blocks_of random section of
                   Inl e \<Rightarrow> Inl e
                 | Inr blocks \<Rightarrow>
                     Inr (JObj (AList.update ''section''
                            (JObj (AList.update ''blocks'' blocks
                                    (AList.update ''id'' (JStr (random 0)) (spread section))))
                            kvs)))
           else Inr (JObj kvs)))"
| "stamp_section random v = Inr v"

text \<open>
  The properties of the object that the assignment above stores, for a \<open>section\<close> that
  is an object with the properties \<open>sec\<close> and whose \<open>blocks\<close> has the entries \<open>bs\<close>.
\<close>

definition stamped_section :: "(nat \<Rightarrow> string) \<Rightarrow> (string \<times> jsval) list \<Rightarrow> jsval list \<Rightarrow> (string \<times> jsval) list" where
  "stamped_section random sec bs =
     AList.update ''blocks'' (JArr (stamp_blocks random 1 bs))
       (AList.update ''id'' (JStr (random 0)) sec)"

text \<open>
  \<open>section.parse\<close> (src/unnamed/part_000, lines 280-315; src/lib/engine_liquid.js, lines
  199-234, is the same text). \<open>allPaths\<close> is the directory list of the setup call.
  \<^verbatim>\<open>
    const quoted = /^'[^']*'|"[^"]*"$/;
    this.namestr = token.args;
    if (quoted.exec(this.namestr)) { this.template = this.namestr.slice(1, -1); }
    this.sectionData = {};
    ...
    if (sectionDataFilePath) {
      this.sectionData = JSON.parse(fs.readFileSync(sectionDataFilePath));
      ...
    }
  \<close>
\<close>

definition template_of :: "string \<Rightarrow> string option" where
  "template_of args =
     (if regex_exec quoted args then Some (slice_1_m1 args) else None)"

definition section_parse ::
  "files \<Rightarrow> string list \<Rightarrow> (nat \<Rightarrow> string) \<Rightarrow> string \<Rightarrow> error + section_tag" where
  "section_parse fs allPaths random args =
     (let tmpl = template_of args;
          this = \<lparr>namestr = args, template = tmpl, sectionData = JObj []\<rparr>
      in case find_sidecar fs (interpolate tmpl @ ''.json'') allPaths of
           None \<Rightarrow> Inr this
         | Some sectionDataFilePath \<Rightarrow>
             (if sectionDataFilePath = [] then Inr this
              else (case readFileSync fs sectionDataFilePath of
                      Inl e \<Rightarrow> Inl e
                    | Inr text \<Rightarrow>
                        (case JSON_parse fs text of
                           Inl e \<Rightarrow> Inl e
                         | Inr loaded \<Rightarrow>
                             (case stamp_section random loaded of
                                Inl e \<Rightarrow> Inl e
                              | Inr stamped \<Rightarrow> Inr (this\<lparr>sectionData := stamped\<rparr>))))))"

text \<open>
  \<^verbatim>\<open>output.match(/<script id="schema" type="application\/json">(.*)<\/script>/s)\<close>, its
  first group. The match starts at the first occurrence of the opening text that has a
  closing text after it, which is the first occurrence or none; the group is greedy and
  the dot matches every code unit, so the group runs to the last closing text.
\<close>

definition match_schema :: "string \<Rightarrow> string option" where
  "match_schema output =
     (case split_first schema_open output of
        None \<Rightarrow> None
      | Some (pre, rest) \<Rightarrow>
          (case split_last script_close rest of
             None \<Rightarrow> None
           | Some (captured, post) \<Rightarrow> Some captured))"

text \<open>\<^verbatim>\<open>v.toLowerCase()\<close>: a method of strings only; on anything else the read or
  the call raises a TypeError.\<close>

definition call_toLowerCase :: "jsval \<Rightarrow> error + string" where
  "call_toLowerCase v = (case v of JStr s \<Rightarrow> Inr (toLowerCase s) | _ \<Rightarrow> Inl TypeError)"

text \<open>
  \<open>section.render\<close> of the full engine (src/unnamed/part_000, lines 316-324).
  \<open>patternExtension\<close> is \<^verbatim>\<open>patternLabConfig.patternExtension\<close>. \<open>render_section\<close> is
  the body of the method, which reads the tag instance and assigns to none of its fields;
  \<open>section_render\<close> is the method as a step on the tag instance: the instance after the
  call, and what the call gives.
\<close>

definition render_section ::
  "liquid \<Rightarrow> (string \<Rightarrow> error + jsval) \<Rightarrow> (jsnum \<Rightarrow> string) \<Rightarrow> string option \<Rightarrow>
   section_tag \<Rightarrow> error + string" where
  \<open>render_section engine parse numberToString patternExtension this =
     (case renderFile engine (interpolate (template this) @ ''.'' @ interpolate patternExtension)
             (sectionData this) of
        Inl e \<Rightarrow> Inl e
      | Inr output \<Rightarrow>
     (case (case match_schema output of
              None \<Rightarrow> Inr JNull
            | Some captured \<Rightarrow> if captured = [] then Inr JNull else parse captured) of
        Inl e \<Rightarrow> Inl e
      | Inr schema \<Rightarrow>
     (case get_prop schema ''name'' of
        Inl e \<Rightarrow> Inl e
      | Inr nm \<Rightarrow>
     (case call_toLowerCase nm of
        Inl e \<Rightarrow> Inl e
      | Inr lower \<Rightarrow>
     (case get_prop schema ''class'' of
        Inl e \<Rightarrow> Inl e
      | Inr cls \<Rightarrow>
     (case (if ToBoolean cls
            then (case ToString numberToString cls of Inl e \<Rightarrow> Inl e | Inr c \<Rightarrow> Inr ('' '' @ c))
            else Inr []) of
        Inl e \<Rightarrow> Inl e
      | Inr class_suffix \<Rightarrow>
          Inr (''<div id="shopify-section-'' @ trim_hyphens (hyphenate lower)
               @ ''" class="shopify-section'' @ class_suffix @ ''">'' @ output @ ''</div>'')))))))\<close>

definition section_render ::
  "liquid \<Rightarrow> (string \<Rightarrow> error + jsval) \<Rightarrow> (jsnum \<Rightarrow> string) \<Rightarrow> string option \<Rightarrow>
   section_tag \<Rightarrow> section_tag \<times> (error + string)" where
  "section_render engine parse numberToString patternExtension this =
     (this, render_section engine parse numberToString patternExtension this)"

section \<open>The stylesheet tag\<close>

record stylesheet_tag = block_tag +
  processor :: string

text \<open>\<open>stylesheet.parse\<close> (src/unnamed/part_000, lines 328-346).\<close>

definition stylesheet_parse :: "string \<Rightarrow> token \<Rightarrow> token list \<Rightarrow> error + (stylesheet_tag \<times> token list)" where
  "stylesheet_parse args tagToken remainTokens =
     (case scan_block ''endstylesheet'' [] remainTokens of
        None \<Rightarrow> Inl (Error (''tag '' @ getText tagToken @ '' not closed''))
      | Some (buf, rest) \<Rightarrow> Inr (\<lparr>tokens = buf, processor = args\<rparr>, rest))"

text \<open>
  \<^verbatim>\<open>
    const processors = { '': x => x, 'sass': sassProcessor, 'scss': sassProcessor };
    ...
    const p = processors[processor];
  \<close>
  \<open>processors\<close> is an object literal, so the read \<^verbatim>\<open>processors[processor]\<close> finds the
  three own properties and, for any other key, what the object inherits from
  \<^verbatim>\<open>Object.prototype\<close>.
\<close>

datatype pipeline = Identity | SassProcessor | Inherited string

definition Object_prototype_keys :: "string list" where
  "Object_prototype_keys =
     [''constructor'', ''__defineGetter__'', ''__defineSetter__'', ''hasOwnProperty'',
      ''__lookupGetter__'', ''__lookupSetter__'', ''isPrototypeOf'', ''propertyIsEnumerable'',
      ''toString'', ''valueOf'', ''__proto__'', ''toLocaleString'']"

definition processors :: "string \<Rightarrow> pipeline option" where
  "processors key =
     (if key = [] then Some Identity
      else if key = ''sass'' then Some SassProcessor
      else if key = ''scss'' then Some SassProcessor
      else if key \<in> set Object_prototype_keys then Some (Inherited key)
      else None)"

text \<open>
  \<^verbatim>\<open>const css = await p(text); return `<style>${css}</style>`;\<close> with \<open>p\<close> called as a
  plain function in strict mode, so with \<open>this\<close> undefined, on a string. The own
  pipelines are the identity and the stylesheet compiler. Of the inherited members,
  \<open>constructor\<close> is \<open>Object\<close> and wraps the string, which prints as itself;
  \<open>toString\<close> prints the undefined receiver; \<open>isPrototypeOf\<close> answers \<open>false\<close> for a
  value that is not an object; the others convert the undefined receiver to an object, or
  are not functions (\<open>__proto__\<close>), and raise a TypeError.
\<close>

definition run_pipeline :: "(string \<Rightarrow> error + string) \<Rightarrow> pipeline \<Rightarrow> string \<Rightarrow> error + string" where
  "run_pipeline renderSass p text =
     (case p of
        Identity \<Rightarrow> Inr text
      | SassProcessor \<Rightarrow> renderSass text
      | Inherited key \<Rightarrow>
          (if key = ''constructor'' then Inr text
           else if key = ''toString'' then Inr ''[object Undefined]''
           else if key = ''isPrototypeOf'' then Inr ''false''
           else Inl TypeError))"

text \<open>
  \<open>stylesheet.render\<close> (src/unnamed/part_000, lines 347-378). \<open>scope\<close> and \<open>opts\<close> are
  \<^verbatim>\<open>ctx.getAll()\<close> and \<^verbatim>\<open>ctx.opts\<close>.
\<close>

definition stylesheet_render ::
  "liquid \<Rightarrow> (string \<Rightarrow> error + string) \<Rightarrow> jsval \<Rightarrow> jsval \<Rightarrow> stylesheet_tag \<Rightarrow> error + string" where
  "stylesheet_render engine renderSass scope opts this =
     (case (if regex_exec quoted (processor this)
            then parseAndRender engine (slice_1_m1 (processor this)) scope opts
            else Inr []) of
        Inl e \<Rightarrow> Inl e
      | Inr key \<Rightarrow>
          (let text = concat (map getText (tokens this))
           in case processors key of
                None \<Rightarrow> Inl (Error (''processor for '' @ key @ '' not found''))
              | Some p \<Rightarrow>
                  (case run_pipeline renderSass p text of
                     Inl e \<Rightarrow> Inl e
                   | Inr css \<Rightarrow> Inr (''<style>'' @ css @ ''</style>''))))"

section \<open>Filters\<close>

text \<open>
  \<^verbatim>\<open>engine.registerFilter('money', value => value && `$${parseFloat(value) / 100}`);\<close>
  The three operations on doubles are parameters: \<open>parseFloat\<close>, the division and the
  printing of a number.
\<close>

record number_ops =
  parseFloat :: "jsval \<Rightarrow> jsnum"
  divide :: "jsnum \<Rightarrow> jsnum \<Rightarrow> jsnum"
  numberToString :: "jsnum \<Rightarrow> string"

definition money :: "number_ops \<Rightarrow> jsval \<Rightarrow> jsval" where
  "money ops v =
     (if ToBoolean v
      then JStr (''$'' @ numberToString ops (divide ops (parseFloat ops v) (Fin 100)))
      else v)"

section \<open>The render entry point\<close>

text \<open>
  The module's variables that \<open>renderPattern\<close> reads and writes, and the console.
  A line of the console is the pair of arguments of \<^verbatim>\<open>console.log(40, ex)\<close>.
\<close>

record module =
  globalDataFilePath :: string
  globalData :: jsval
  console :: "(int \<times> error) list"

record pattern =
  pattern_template :: string

text \<open>What a call gives its caller: an exception, or a promise that settles.\<close>

datatype outcome = Throws error | Fulfilled jsval | Rejected error

text \<open>
  \<open>renderPattern\<close> of the full engine (src/unnamed/part_000, lines 54-70):
  \<^verbatim>\<open>
    globalData = JSON.parse(fs.readFileSync(globalDataFilePath));
    return engine
      .parseAndRender(pattern.template, data, { globals: { ...globalData, is_patternlab: true } })
      .then(function(html) { return html; })
      .catch(function(ex) { console.log(40, ex); });
  \<close>
  The first statement runs before there is a promise. The handler of \<open>catch\<close> returns
  nothing, so the promise it gives is fulfilled with \<open>undefined\<close>.
\<close>

definition render_options :: "jsval \<Rightarrow> jsval" where
  "render_options g =
     JObj [(''globals'', JObj (AList.update ''is_patternlab'' (JBool True) (spread g)))]"

definition renderPattern :: "files \<Rightarrow> liquid \<Rightarrow> module \<Rightarrow> pattern \<Rightarrow> jsval \<Rightarrow> module \<times> outcome" where
  "renderPattern fs engine m pat data =
     (case readFileSync fs (globalDataFilePath m) of
        Inl e \<Rightarrow> (m, Throws e)
      | Inr text \<Rightarrow>
          (case JSON_parse fs text of
             Inl e \<Rightarrow> (m, Throws e)
           | Inr g \<Rightarrow>
               (case parseAndRender engine (pattern_template pat) data (render_options g) of
                  Inr html \<Rightarrow> (m\<lparr>globalData := g\<rparr>, Fulfilled (JStr html))
                | Inl ex \<Rightarrow>
                    (m\<lparr>globalData := g, console := console m @ [(40, ex)]\<rparr>,
                     Fulfilled JUndefined))))"

text \<open>
  \<open>renderPattern\<close> of the reduced engine (src/lib/engine_liquid.js, lines 51-60):
  \<^verbatim>\<open>
    return engine
      .parseAndRender(pattern.template, data)
      .then(function(html) { return html; })
      .catch(function(ex) { console.log(40, ex); });
  \<close>
\<close>

definition renderPattern_reduced :: "liquid \<Rightarrow> module \<Rightarrow> pattern \<Rightarrow> jsval \<Rightarrow> module \<times> outcome" where
  "renderPattern_reduced engine m pat data =
     (case parseAndRender engine (pattern_template pat) data JUndefined of
        Inr html \<Rightarrow> (m, Fulfilled (JStr html))
      | Inl ex \<Rightarrow> (m\<lparr>console := console m @ [(40, ex)]\<rparr>, Fulfilled JUndefined))"

section \<open>Partial references\<close>










section \<open>Auxiliary notions for the partial references\<close>







section \<open>Properties of the block scanner\<close>

lemma scan_block_end:
  "\<forall>t \<in> set pre. name t \<noteq> Some e \<Longrightarrow> name endTok = Some e \<Longrightarrow>
   scan_block e acc (pre @ endTok # rest) = Some (acc @ pre, rest)"
  by (induction pre arbitrary: acc) simp_all

lemma scan_block_exhausted:
  "\<forall>t \<in> set ts. name t \<noteq> Some e \<Longrightarrow> scan_block e acc ts = None"
  by (induction ts arbitrary: acc) simp_all

text \<open>
  C3. A stream of N tokens none of which is named \<open>endschema\<close>, followed by one token
  named \<open>endschema\<close>, is parsed to a tag instance that buffers exactly those N tokens in
  order; the end token is taken off the stream and is not buffered, and what follows it
  stays on the stream. A stream with no token named \<open>endschema\<close> makes the parse fail with
  the error \<open>tag <text of the opening tag> not closed\<close>. Both engines behave so.
\<close>

theorem schema_parse_scans_block:
  "((\<forall>t \<in> set pre. name t \<noteq> Some ''endschema'') \<and> name endTok = Some ''endschema'' \<longrightarrow>
      schema_parse tagToken (pre @ endTok # rest) = Inr (\<lparr>tokens = pre\<rparr>, rest) \<and>
      schema_parse_reduced tagToken (pre @ endTok # rest) = Inr (\<lparr>tokens = pre\<rparr>, rest)) \<and>
   ((\<forall>t \<in> set ts. name t \<noteq> Some ''endschema'') \<longrightarrow>
      schema_parse tagToken ts = Inl (Error (''tag '' @ getText tagToken @ '' not closed'')) \<and>
      schema_parse_reduced tagToken ts = Inl (Error (''tag '' @ getText tagToken @ '' not closed'')))"
proof (intro conjI impI)
  assume h: "(\<forall>t \<in> set pre. name t \<noteq> Some ''endschema'') \<and> name endTok = Some ''endschema''"
  then have s: "scan_block ''endschema'' [] (pre @ endTok # rest) = Some ([] @ pre, rest)"
    by (intro scan_block_end) simp_all
  show "schema_parse tagToken (pre @ endTok # rest) = Inr (\<lparr>tokens = pre\<rparr>, rest)"
    using s by (simp add: schema_parse_def)
  show "schema_parse_reduced tagToken (pre @ endTok # rest) = Inr (\<lparr>tokens = pre\<rparr>, rest)"
    using s by (simp add: schema_parse_reduced_def)
next
  assume h: "\<forall>t \<in> set ts. name t \<noteq> Some ''endschema''"
  then have s: "scan_block ''endschema'' [] ts = None"
    by (rule scan_block_exhausted)
  show "schema_parse tagToken ts = Inl (Error (''tag '' @ getText tagToken @ '' not closed''))"
    using s by (simp add: schema_parse_def)
  show "schema_parse_reduced tagToken ts =
          Inl (Error (''tag '' @ getText tagToken @ '' not closed''))"
    using s by (simp add: schema_parse_reduced_def)
qed

theorem schema_parse_scans_block_witness:
  "name \<lparr>name = None, getText = ''{''\<rparr> \<noteq> Some ''endschema'' \<and>
   name \<lparr>name = Some ''if'', getText = ''{% if x %}''\<rparr> \<noteq> Some ''endschema'' \<and>
   name \<lparr>name = Some ''endschema'', getText = ''{% endschema %}''\<rparr> = Some ''endschema'' \<and>
   schema_parse \<lparr>name = Some ''schema'', getText = ''{% schema %}''\<rparr>
     [\<lparr>name = None, getText = ''{''\<rparr>, \<lparr>name = Some ''if'', getText = ''{% if x %}''\<rparr>,
      \<lparr>name = Some ''endschema'', getText = ''{% endschema %}''\<rparr>,
      \<lparr>name = None, getText = ''tail''\<rparr>]
   = Inr (\<lparr>tokens = [\<lparr>name = None, getText = ''{''\<rparr>,
                      \<lparr>name = Some ''if'', getText = ''{% if x %}''\<rparr>]\<rparr>,
          [\<lparr>name = None, getText = ''tail''\<rparr>]) \<and>
   schema_parse_reduced \<lparr>name = Some ''schema'', getText = ''{% schema %}''\<rparr>
     [\<lparr>name = None, getText = ''{''\<rparr>]
   = Inl (Error ''tag {% schema %} not closed'')"
  using schema_parse_scans_block
    [of "[\<lparr>name = None, getText = ''{''\<rparr>, \<lparr>name = Some ''if'', getText = ''{% if x %}''\<rparr>]"
        "\<lparr>name = Some ''endschema'', getText = ''{% endschema %}''\<rparr>"
        "\<lparr>name = Some ''schema'', getText = ''{% schema %}''\<rparr>"
        "[\<lparr>name = None, getText = ''tail''\<rparr>]"
        "[\<lparr>name = None, getText = ''{''\<rparr>]"]
  by simp

section \<open>Properties of the schema tag\<close>

text \<open>
  C2 (as amended). The render routine of the schema tag takes no rendering context. In
  the full engine it returns the raw texts of the buffered tokens, concatenated in order
  and wrapped as \<^verbatim>\<open><script id="schema" type="application/json">\<close> ... \<^verbatim>\<open></script>\<close>.
  In the reduced engine it returns \<open>null\<close>, whatever was buffered.
\<close>

theorem schema_render_wraps_verbatim:
  \<open>schema_render this =
     JStr (''<script id="schema" type="application/json">''
           @ concat (map getText (tokens this)) @ ''</script>'') \<and>
   schema_render_reduced this = JNull\<close>
  by (simp add: schema_render_def schema_render_reduced_def schema_open_def script_close_def)

text \<open>
  The claim as stated, for both engines, fails: the reduced engine does not return the
  wrapped text of a buffered schema.
\<close>

theorem schema_render_reduced_counterexample:
  \<open>\<not> (schema_render \<lparr>tokens = [\<lparr>name = None, getText = ''{"name": "Hero"}''\<rparr>]\<rparr> =
        JStr ''<script id="schema" type="application/json">{"name": "Hero"}</script>'' \<and>
      schema_render_reduced \<lparr>tokens = [\<lparr>name = None, getText = ''{"name": "Hero"}''\<rparr>]\<rparr> =
        JStr ''<script id="schema" type="application/json">{"name": "Hero"}</script>'')\<close>
  by (simp add: schema_render_reduced_def)

section \<open>Properties of the filters\<close>

text \<open>
  C10. The money filter returns a falsy argument as it is: \<open>null\<close>, \<open>undefined\<close>, \<open>0\<close>,
  the empty string and every other falsy value, and so \<open>0\<close> for \<open>0\<close> and not the
  string \<^verbatim>\<open>$0\<close>. For a truthy argument it returns the string made of \<^verbatim>\<open>$\<close> and
  the printed quotient by 100 of the number that \<open>parseFloat\<close> reads from the argument. It
  never raises.
\<close>

theorem money_falsy_unchanged:
  "(\<not> ToBoolean v \<longrightarrow> money ops v = v) \<and>
   (ToBoolean v \<longrightarrow>
      money ops v = JStr (''$'' @ numberToString ops (divide ops (parseFloat ops v) (Fin 100)))) \<and>
   money ops JNull = JNull \<and> money ops JUndefined = JUndefined \<and>
   money ops (JNum (Fin 0)) = JNum (Fin 0) \<and> money ops (JStr []) = JStr [] \<and>
   money ops (JNum (Fin 0)) \<noteq> JStr ''$0''"
  by (simp add: money_def)

theorem money_falsy_unchanged_witness:
  "\<not> ToBoolean (JNum NaN) \<and>
   money \<lparr>parseFloat = (\<lambda>v. case v of JNum n \<Rightarrow> n | _ \<Rightarrow> NaN),
          divide = (\<lambda>a b. case (a, b) of (Fin p, Fin q) \<Rightarrow> Fin (p / q) | _ \<Rightarrow> NaN),
          numberToString = (\<lambda>n. if n = Fin 5 then ''5'' else ''other'')\<rparr> (JNum NaN) = JNum NaN \<and>
   ToBoolean (JNum (Fin 500)) \<and>
   money \<lparr>parseFloat = (\<lambda>v. case v of JNum n \<Rightarrow> n | _ \<Rightarrow> NaN),
          divide = (\<lambda>a b. case (a, b) of (Fin p, Fin q) \<Rightarrow> Fin (p / q) | _ \<Rightarrow> NaN),
          numberToString = (\<lambda>n. if n = Fin 5 then ''5'' else ''other'')\<rparr> (JNum (Fin 500)) = JStr ''$5''"
  using money_falsy_unchanged
    [of "JNum NaN"
        "\<lparr>parseFloat = (\<lambda>v. case v of JNum n \<Rightarrow> n | _ \<Rightarrow> NaN),
          divide = (\<lambda>a b. case (a, b) of (Fin p, Fin q) \<Rightarrow> Fin (p / q) | _ \<Rightarrow> NaN),
          numberToString = (\<lambda>n. if n = Fin 5 then ''5'' else ''other'')\<rparr>"]
    money_falsy_unchanged
    [of "JNum (Fin 500)"
        "\<lparr>parseFloat = (\<lambda>v. case v of JNum n \<Rightarrow> n | _ \<Rightarrow> NaN),
          divide = (\<lambda>a b. case (a, b) of (Fin p, Fin q) \<Rightarrow> Fin (p / q) | _ \<Rightarrow> NaN),
          numberToString = (\<lambda>n. if n = Fin 5 then ''5'' else ''other'')\<rparr>"]
  by simp

section \<open>Properties of the render entry point\<close>

text \<open>
  When the template engine fails to render the pattern, in either engine,
  \<open>renderPattern\<close> does not pass the failure on: the handler runs once and writes one line
  to the console, the failure with the number 40, and the promise that the caller holds
  is fulfilled with \<open>undefined\<close>. In the full engine the render starts once the global
  data file has been read and parsed.
\<close>

lemma renderPattern_catches_render_failure:
  "(readFileSync fs (globalDataFilePath m) = Inr text \<and> JSON_parse fs text = Inr g \<and>
    parseAndRender engine (pattern_template pat) data (render_options g) = Inl ex \<longrightarrow>
      renderPattern fs engine m pat data =
        (m\<lparr>globalData := g, console := console m @ [(40, ex)]\<rparr>, Fulfilled JUndefined)) \<and>
   (parseAndRender engine (pattern_template pat) data JUndefined = Inl ex \<longrightarrow>
      renderPattern_reduced engine m pat data =
        (m\<lparr>console := console m @ [(40, ex)]\<rparr>, Fulfilled JUndefined))"
  by (simp add: renderPattern_def renderPattern_reduced_def)

lemma renderPattern_catches_render_failure_example:
  "renderPattern
     \<lparr>cwd = ''/'', path_join = concat, existsSync = (\<lambda>p. False),
      readFileSync = (\<lambda>p. Inr ''{}''), JSON_parse = (\<lambda>t. Inr (JObj []))\<rparr>
     \<lparr>parseAndRender = (\<lambda>t d opts. Inl (Error ''tag {% schema %} not closed'')),
      renderFile = (\<lambda>f d. Inr [])\<rparr>
     \<lparr>globalDataFilePath = ''data.json'', globalData = JUndefined, console = []\<rparr>
     \<lparr>pattern_template = ''{% schema %}''\<rparr> (JObj [])
   = (\<lparr>globalDataFilePath = ''data.json'', globalData = JObj [],
       console = [(40, Error ''tag {% schema %} not closed'')]\<rparr>, Fulfilled JUndefined) \<and>
   renderPattern_reduced
     \<lparr>parseAndRender = (\<lambda>t d opts. Inl (Error ''tag {% schema %} not closed'')),
      renderFile = (\<lambda>f d. Inr [])\<rparr>
     \<lparr>globalDataFilePath = ''data.json'', globalData = JUndefined, console = []\<rparr>
     \<lparr>pattern_template = ''{% schema %}''\<rparr> (JObj [])
   = (\<lparr>globalDataFilePath = ''data.json'', globalData = JUndefined,
       console = [(40, Error ''tag {% schema %} not closed'')]\<rparr>, Fulfilled JUndefined)"
  using renderPattern_catches_render_failure
    [of "\<lparr>cwd = ''/'', path_join = concat, existsSync = (\<lambda>p. False),
          readFileSync = (\<lambda>p. Inr ''{}''), JSON_parse = (\<lambda>t. Inr (JObj []))\<rparr>"
        "\<lparr>globalDataFilePath = ''data.json'', globalData = JUndefined, console = []\<rparr>"
        "''{}''" "JObj []"
        "\<lparr>parseAndRender = (\<lambda>t d opts. Inl (Error ''tag {% schema %} not closed'')),
          renderFile = (\<lambda>f d. Inr [])\<rparr>"
        "\<lparr>pattern_template = ''{% schema %}''\<rparr>" "JObj []"
        "Error ''tag {% schema %} not closed''"]
  by simp

text \<open>
  C8 fails on the code of the full engine. The first statement of its \<open>renderPattern\<close>
  reads and parses the global data file before there is a promise, outside the chain that
  ends in the handler. When the file cannot be read, or its text cannot be parsed,
  \<open>renderPattern\<close> throws to its caller: the handler does not run, the console gets no
  line, and the caller receives the failure and no promise.
\<close>

theorem renderPattern_data_file_failure_propagates:
  "renderPattern
     \<lparr>cwd = ''/'', path_join = concat, existsSync = (\<lambda>p. False),
      readFileSync = (\<lambda>p. Inl (HostError ''ENOENT'')), JSON_parse = (\<lambda>t. Inr (JObj []))\<rparr>
     \<lparr>parseAndRender = (\<lambda>t d opts. Inr t), renderFile = (\<lambda>f d. Inr [])\<rparr>
     \<lparr>globalDataFilePath = ''data.json'', globalData = JObj [], console = []\<rparr>
     \<lparr>pattern_template = ''<p>hello</p>''\<rparr> (JObj [])
   = (\<lparr>globalDataFilePath = ''data.json'', globalData = JObj [], console = []\<rparr>,
      Throws (HostError ''ENOENT'')) \<and>
   renderPattern
     \<lparr>cwd = ''/'', path_join = concat, existsSync = (\<lambda>p. False),
      readFileSync = (\<lambda>p. Inr ''{''), JSON_parse = (\<lambda>t. Inl (HostError ''SyntaxError''))\<rparr>
     \<lparr>parseAndRender = (\<lambda>t d opts. Inr t), renderFile = (\<lambda>f d. Inr [])\<rparr>
     \<lparr>globalDataFilePath = ''data.json'', globalData = JObj [], console = []\<rparr>
     \<lparr>pattern_template = ''<p>hello</p>''\<rparr> (JObj [])
   = (\<lparr>globalDataFilePath = ''data.json'', globalData = JObj [], console = []\<rparr>,
      Throws (HostError ''SyntaxError''))"
  by (simp add: renderPattern_def)

section \<open>Properties of the section render\<close>

lemma split_first_SomeD:
  "split_first pat s = Some (a, b) \<Longrightarrow> s = a @ pat @ b"
proof (induction s arbitrary: a)
  case Nil
  then show ?case by (simp split: if_splits)
next
  case (Cons c cs)
  show ?case
  proof (cases "take (length pat) (c # cs) = pat")
    case True
    with Cons.prems have "a = []" "b = drop (length pat) (c # cs)" by simp_all
    with True show ?thesis by (metis append_Nil append_take_drop_id)
  next
    case False
    with Cons.prems obtain a' where "split_first pat cs = Some (a', b)" "a = c # a'"
      by (auto split: option.splits)
    with Cons.IH show ?thesis by simp
  qed
qed

lemma split_last_SomeD:
  "split_last pat s = Some (a, b) \<Longrightarrow> s = a @ pat @ b"
proof -
  assume "split_last pat s = Some (a, b)"
  then obtain x y where xy: "split_first (rev pat) (rev s) = Some (x, y)" "a = rev y" "b = rev x"
    by (auto simp: split_last_def split: option.splits)
  from split_first_SomeD[OF xy(1)] have "rev (rev s) = rev (x @ rev pat @ y)" by simp
  then show ?thesis using xy by simp
qed

lemma match_schema_SomeD:
  "match_schema output = Some g \<Longrightarrow>
   \<exists>a c. output = a @ schema_open @ g @ script_close @ c"
proof -
  assume h: "match_schema output = Some g"
  then obtain pre rest where 1: "split_first schema_open output = Some (pre, rest)"
    by (auto simp: match_schema_def split: option.splits)
  with h obtain post where 2: "split_last script_close rest = Some (g, post)"
    by (auto simp: match_schema_def split: option.splits)
  from split_first_SomeD[OF 1] split_last_SomeD[OF 2] show ?thesis by auto
qed

text \<open>
  C4. When the output of the rendered variant contains no
  \<^verbatim>\<open><script id="schema" type="application/json">\<close> ... \<^verbatim>\<open></script>\<close> block, the section
  render of the full engine raises a TypeError and returns no wrapper markup.
\<close>

theorem section_render_fails_without_schema:
  \<open>renderFile engine (interpolate (template this) @ ''.'' @ interpolate patternExtension)
      (sectionData this) = Inr output \<and>
   (\<forall>a b c. output \<noteq> a @ ''<script id="schema" type="application/json">'' @ b @ ''</script>'' @ c)
   \<longrightarrow> section_render engine parse nts patternExtension this = (this, Inl TypeError)\<close>
proof
  assume h: \<open>renderFile engine (interpolate (template this) @ ''.'' @ interpolate patternExtension)
      (sectionData this) = Inr output \<and>
   (\<forall>a b c. output \<noteq> a @ ''<script id="schema" type="application/json">'' @ b @ ''</script>'' @ c)\<close>
  have "match_schema output = None"
  proof (cases "match_schema output")
    case None
    then show ?thesis .
  next
    case (Some g)
    from match_schema_SomeD[OF this] h show ?thesis
      by (auto simp: schema_open_def script_close_def)
  qed
  with h show "section_render engine parse nts patternExtension this = (this, Inl TypeError)"
    by (simp add: section_render_def render_section_def)
qed

theorem section_render_fails_without_schema_witness:
  \<open>renderFile \<lparr>parseAndRender = (\<lambda>t d opts. Inr t), renderFile = (\<lambda>f d. Inr ''<p>hero</p>'')\<rparr>
      (interpolate (template \<lparr>namestr = ''x'', template = Some ''hero'', sectionData = JObj []\<rparr>)
         @ ''.'' @ interpolate (Some ''liquid''))
      (sectionData \<lparr>namestr = ''x'', template = Some ''hero'', sectionData = JObj []\<rparr>)
     = Inr ''<p>hero</p>'' \<and>
   (\<forall>a b c. ''<p>hero</p>'' \<noteq>
      a @ ''<script id="schema" type="application/json">'' @ b @ ''</script>'' @ c) \<and>
   section_render \<lparr>parseAndRender = (\<lambda>t d opts. Inr t), renderFile = (\<lambda>f d. Inr ''<p>hero</p>'')\<rparr>
      (\<lambda>t. Inr (JObj [(''name'', JStr ''Hero'')])) (\<lambda>n. ''0'') (Some ''liquid'')
      \<lparr>namestr = ''x'', template = Some ''hero'', sectionData = JObj []\<rparr>
     = (\<lparr>namestr = ''x'', template = Some ''hero'', sectionData = JObj []\<rparr>, Inl TypeError)\<close>
proof -
  have no: \<open>\<forall>a b c. ''<p>hero</p>'' \<noteq> a @ ''<script id="schema" type="application/json">'' @ b @ ''</script>'' @ c\<close>
  proof (intro allI notI)
    fix a b c :: string
    assume \<open>''<p>hero</p>'' = a @ ''<script id="schema" type="application/json">'' @ b @ ''</script>'' @ c\<close>
    then have "length ''<p>hero</p>'' = length (a @ ''<script id=\"schema\" type=\"application/json\">'' @ b @ ''</script>'' @ c)"
      by (rule arg_cong)
    then show False by simp
  qed
  have m: "match_schema ''<p>hero</p>'' = None"
    by (simp add: match_schema_def schema_open_def)
  show ?thesis
    using no m section_render_fails_without_schema
      [of "\<lparr>parseAndRender = (\<lambda>t d opts. Inr t), renderFile = (\<lambda>f d. Inr ''<p>hero</p>'')\<rparr>"
          "\<lparr>namestr = ''x'', template = Some ''hero'', sectionData = JObj []\<rparr>"
          "Some ''liquid''" "''<p>hero</p>''"
          "(\<lambda>t. Inr (JObj [(''name'', JStr ''Hero'')]))" "(\<lambda>n. ''0'')"]
    by simp
qed

section \<open>Properties of the stylesheet render\<close>

text \<open>
  The empty key selects the identity and the keys \<open>sass\<close> and \<open>scss\<close> the stylesheet
  compiler. A key that is none of the three and that \<^verbatim>\<open>Object.prototype\<close> does not
  have makes the render fail with a message that names the key.
\<close>

lemma stylesheet_render_unknown_key:
  "regex_exec quoted (processor this) \<Longrightarrow>
   parseAndRender engine (slice_1_m1 (processor this)) scope opts = Inr key \<Longrightarrow>
   key \<noteq> [] \<Longrightarrow> key \<noteq> ''sass'' \<Longrightarrow> key \<noteq> ''scss'' \<Longrightarrow> key \<notin> set Object_prototype_keys \<Longrightarrow>
   stylesheet_render engine renderSass scope opts this =
     Inl (Error (''processor for '' @ key @ '' not found''))"
  by (simp add: stylesheet_render_def processors_def)

lemma stylesheet_render_own_keys:
  "processors [] = Some Identity \<and> processors ''sass'' = Some SassProcessor \<and>
   processors ''scss'' = Some SassProcessor \<and>
   run_pipeline renderSass Identity text = Inr text \<and>
   run_pipeline renderSass SassProcessor text = renderSass text"
  by (simp add: processors_def run_pipeline_def)

text \<open>
  C5 fails on the code for the keys of \<^verbatim>\<open>Object.prototype\<close>. With the processor
  argument \<^verbatim>\<open>'constructor'\<close> the lookup finds the inherited constructor, the test for a
  missing pipeline passes, and the render returns the text in a style element and raises
  nothing.
\<close>

theorem stylesheet_render_inherited_key:
  "stylesheet_render
     \<lparr>parseAndRender = (\<lambda>t scope opts. Inr t), renderFile = (\<lambda>f d. Inr [])\<rparr>
     (\<lambda>text. Inl (HostError ''sass''))
     (JObj []) (JObj [])
     \<lparr>tokens = [\<lparr>name = None, getText = ''a { color: red }''\<rparr>],
      processor = [CHR 0x27] @ ''constructor'' @ [CHR 0x27]\<rparr>
   = Inr ''<style>a { color: red }</style>''"
  by (simp add: stylesheet_render_def processors_def run_pipeline_def Object_prototype_keys_def
      regex_exec_def quoted_def branch_exec_def slice_1_m1_def)

section \<open>Properties of the quoted-argument test\<close>

lemma matches_Empty [simp]: "matches Empty w = False"
  by (induction w) simp_all

lemma matches_Eps [simp]: "matches Eps w = (w = [])"
  by (cases w) simp_all

lemma matches_Alt [simp]: "matches (Alt r s) w = (matches r w \<or> matches s w)"
  by (induction w arbitrary: r s) simp_all

lemma matches_Lit [simp]: "matches (Lit c) w = (w = [c])"
  by (cases w) auto

lemma matches_NotLit [simp]: "matches (NotLit c) w = (\<exists>x. w = [x] \<and> x \<noteq> c)"
  by (cases w) auto

lemma matches_Cat:
  "matches (Cat r s) w = (\<exists>u v. w = u @ v \<and> matches r u \<and> matches s v)"
proof (induction w arbitrary: r s)
  case Nil
  then show ?case by simp
next
  case (Cons x xs)
  have split: "(\<exists>u v. x # xs = u @ v \<and> matches r u \<and> matches s v) =
        ((nullable r \<and> matches (deriv x s) xs) \<or>
         (\<exists>u v. xs = u @ v \<and> matches (deriv x r) u \<and> matches s v))"
  proof
    assume "\<exists>u v. x # xs = u @ v \<and> matches r u \<and> matches s v"
    then obtain u v where uv: "x # xs = u @ v" "matches r u" "matches s v" by blast
    show "(nullable r \<and> matches (deriv x s) xs) \<or>
         (\<exists>u v. xs = u @ v \<and> matches (deriv x r) u \<and> matches s v)"
    proof (cases u)
      case Nil
      with uv show ?thesis by auto
    next
      case (Cons y ys)
      with uv have "xs = ys @ v" "matches (deriv x r) ys" by auto
      with uv show ?thesis by blast
    qed
  next
    assume "(nullable r \<and> matches (deriv x s) xs) \<or>
         (\<exists>u v. xs = u @ v \<and> matches (deriv x r) u \<and> matches s v)"
    then show "\<exists>u v. x # xs = u @ v \<and> matches r u \<and> matches s v"
    proof
      assume "nullable r \<and> matches (deriv x s) xs"
      then have "x # xs = [] @ (x # xs) \<and> matches r [] \<and> matches s (x # xs)" by simp
      then show ?thesis by blast
    next
      assume "\<exists>u v. xs = u @ v \<and> matches (deriv x r) u \<and> matches s v"
      then obtain u v where "xs = u @ v" "matches (deriv x r) u" "matches s v" by blast
      then have "x # xs = (x # u) @ v \<and> matches r (x # u) \<and> matches s v" by simp
      then show ?thesis by blast
    qed
  qed
  show ?case
    by (simp add: Cons.IH split) blast
qed

lemma matches_Star_NotLit: "matches (Star (NotLit c)) w = (c \<notin> set w)"
proof (induction w)
  case Nil
  then show ?case by simp
next
  case (Cons x xs)
  have "matches (Star (NotLit c)) (x # xs) =
        (\<exists>u v. xs = u @ v \<and> matches (deriv x (NotLit c)) u \<and> matches (Star (NotLit c)) v)"
    by (simp add: matches_Cat)
  also have "\<dots> = (x \<noteq> c \<and> matches (Star (NotLit c)) xs)"
    by auto
  finally show ?case using Cons.IH by auto
qed

lemma matches_quoted_body:
  "matches (Cat (Lit q) (Cat (Star (NotLit q)) (Lit q))) w =
     (\<exists>a. w = q # a @ [q] \<and> q \<notin> set a)"
  by (auto simp: matches_Cat matches_Star_NotLit)

lemma branch_exec_bol:
  "branch_exec \<lparr>bol = True, body = r, eol = False\<rparr> s =
     (\<exists>j. j \<le> length s \<and> matches r (take j s))"
proof -
  have "branch_exec \<lparr>bol = True, body = r, eol = False\<rparr> s =
        (\<exists>i. i \<le> length s \<and> (\<exists>j. i \<le> j \<and> j \<le> length s \<and> i = 0 \<and>
            matches r (take (j - i) (drop i s))))"
    unfolding branch_exec_def list_ex_iff set_upt Bex_def atLeastLessThan_iff less_Suc_eq_le
    by simp
  also have "\<dots> = (\<exists>j. j \<le> length s \<and> matches r (take j s))"
  proof
    assume "\<exists>i. i \<le> length s \<and> (\<exists>j. i \<le> j \<and> j \<le> length s \<and> i = 0 \<and>
            matches r (take (j - i) (drop i s)))"
    then show "\<exists>j. j \<le> length s \<and> matches r (take j s)" by auto
  next
    assume "\<exists>j. j \<le> length s \<and> matches r (take j s)"
    then obtain j where "j \<le> length s" "matches r (take j s)" by blast
    then have "0 \<le> length s \<and> (0 \<le> j \<and> j \<le> length s \<and> (0::nat) = 0 \<and>
            matches r (take (j - 0) (drop 0 s)))" by simp
    then show "\<exists>i. i \<le> length s \<and> (\<exists>j. i \<le> j \<and> j \<le> length s \<and> i = 0 \<and>
            matches r (take (j - i) (drop i s)))" by blast
  qed
  finally show ?thesis .
qed

lemma branch_exec_eol:
  "branch_exec \<lparr>bol = False, body = r, eol = True\<rparr> s =
     (\<exists>i. i \<le> length s \<and> matches r (drop i s))"
proof -
  have "branch_exec \<lparr>bol = False, body = r, eol = True\<rparr> s =
        (\<exists>i. i \<le> length s \<and> (\<exists>j. i \<le> j \<and> j \<le> length s \<and> j = length s \<and>
            matches r (take (j - i) (drop i s))))"
    unfolding branch_exec_def list_ex_iff set_upt Bex_def atLeastLessThan_iff less_Suc_eq_le
    by simp
  also have "\<dots> = (\<exists>i. i \<le> length s \<and> matches r (drop i s))"
    by auto
  finally show ?thesis .
qed

lemma anchored_prefix:
  "(\<exists>j. j \<le> length s \<and> take j s = q # a @ [q]) = (\<exists>b. s = q # a @ [q] @ b)"
proof
  assume "\<exists>j. j \<le> length s \<and> take j s = q # a @ [q]"
  then obtain j where "take j s = q # a @ [q]" by blast
  then have "s = (q # a @ [q]) @ drop j s" by (metis append_take_drop_id)
  then show "\<exists>b. s = q # a @ [q] @ b" by auto
next
  assume "\<exists>b. s = q # a @ [q] @ b"
  then obtain b where s: "s = q # a @ [q] @ b" by blast
  have "length (q # a @ [q]) \<le> length s \<and> take (length (q # a @ [q])) s = q # a @ [q]"
    unfolding s by simp
  then show "\<exists>j. j \<le> length s \<and> take j s = q # a @ [q]" by blast
qed

lemma anchored_suffix:
  "(\<exists>i. i \<le> length s \<and> drop i s = q # b @ [q]) = (\<exists>a. s = a @ q # b @ [q])"
proof
  assume "\<exists>i. i \<le> length s \<and> drop i s = q # b @ [q]"
  then obtain i where "drop i s = q # b @ [q]" by blast
  then have "s = take i s @ q # b @ [q]" by (metis append_take_drop_id)
  then show "\<exists>a. s = a @ q # b @ [q]" by blast
next
  assume "\<exists>a. s = a @ q # b @ [q]"
  then obtain a where s: "s = a @ q # b @ [q]" by blast
  have "length a \<le> length s \<and> drop (length a) s = q # b @ [q]"
    unfolding s by simp
  then show "\<exists>i. i \<le> length s \<and> drop i s = q # b @ [q]" by blast
qed

lemma quoted_first_branch:
  "branch_exec \<lparr>bol = True, body = Cat (Lit q) (Cat (Star (NotLit q)) (Lit q)), eol = False\<rparr> s =
     (\<exists>a b. s = q # a @ [q] @ b \<and> q \<notin> set a)"
proof -
  have "branch_exec \<lparr>bol = True, body = Cat (Lit q) (Cat (Star (NotLit q)) (Lit q)), eol = False\<rparr> s =
        (\<exists>a. q \<notin> set a \<and> (\<exists>j. j \<le> length s \<and> take j s = q # a @ [q]))"
    unfolding branch_exec_bol matches_quoted_body by blast
  then show ?thesis unfolding anchored_prefix by blast
qed

lemma quoted_second_branch:
  "branch_exec \<lparr>bol = False, body = Cat (Lit q) (Cat (Star (NotLit q)) (Lit q)), eol = True\<rparr> s =
     (\<exists>a b. s = a @ q # b @ [q] \<and> q \<notin> set b)"
proof -
  have "branch_exec \<lparr>bol = False, body = Cat (Lit q) (Cat (Star (NotLit q)) (Lit q)), eol = True\<rparr> s =
        (\<exists>b. q \<notin> set b \<and> (\<exists>i. i \<le> length s \<and> drop i s = q # b @ [q]))"
    unfolding branch_exec_eol matches_quoted_body by blast
  then show ?thesis unfolding anchored_suffix by blast
qed

lemma quoted_exec_iff:
  "regex_exec quoted s =
     ((\<exists>a b. s = CHR 0x27 # a @ [CHR 0x27] @ b \<and> CHR 0x27 \<notin> set a) \<or>
      (\<exists>a b. s = a @ CHR 0x22 # b @ [CHR 0x22] \<and> CHR 0x22 \<notin> set b))"
  unfolding regex_exec_def quoted_def
  by (simp only: list_ex_Cons_iff list_ex_Nil_iff quoted_first_branch quoted_second_branch) simp

lemmas eval_quoted = regex_exec_def quoted_def branch_exec_def slice_1_m1_def template_of_def

section \<open>Properties of the section parse\<close>

lemma map_of_update:
  "map_of (AList.update k v al) k' = (if k' = k then Some v else map_of al k')"
  by (simp add: update_conv')

lemma stamp_blocks_length: "length (stamp_blocks random k bs) = length bs"
  by (induction bs arbitrary: k) simp_all

lemma stamp_blocks_nth:
  "i < length bs \<Longrightarrow>
   stamp_blocks random k bs ! i = JObj (AList.update ''id'' (JStr (random (k + i))) (spread (bs ! i)))"
proof (induction bs arbitrary: k i)
  case Nil
  then show ?case by simp
next
  case (Cons b bs)
  show ?case
  proof (cases i)
    case 0
    then show ?thesis by simp
  next
    case (Suc n)
    with Cons.prems have "n < length bs" by simp
    from Cons.IH[OF this, of "Suc k"] Suc show ?thesis by simp
  qed
qed

lemma stamp_blocks_of_object:
  assumes "((map_of sec ''blocks'' = None \<or> (\<exists>v. map_of sec ''blocks'' = Some v \<and> \<not> ToBoolean v)) \<and> bs = [])
           \<or> map_of sec ''blocks'' = Some (JArr bs)"
  shows "stamp_blocks_of random (JObj sec) = Inr (JArr (stamp_blocks random 1 bs))"
  using assms by (auto simp: stamp_blocks_of_def)

lemma stamp_section_object:
  assumes "map_of kvs ''section'' = Some (JObj sec)"
    and "((map_of sec ''blocks'' = None \<or> (\<exists>v. map_of sec ''blocks'' = Some v \<and> \<not> ToBoolean v)) \<and> bs = [])
           \<or> map_of sec ''blocks'' = Some (JArr bs)"
  shows "stamp_section random (JObj kvs) =
           Inr (JObj (AList.update ''section'' (JObj (stamped_section random sec bs)) kvs))"
  using assms(1) stamp_blocks_of_object[OF assms(2), of random]
  by (simp add: stamped_section_def)

lemma section_parse_loaded:
  assumes "find_sidecar fs (interpolate (template_of args) @ ''.json'') allPaths = Some path"
    and "path \<noteq> []"
    and "readFileSync fs path = Inr raw"
    and "JSON_parse fs raw = Inr (JObj kvs)"
    and "map_of kvs ''section'' = Some (JObj sec)"
    and "((map_of sec ''blocks'' = None \<or> (\<exists>v. map_of sec ''blocks'' = Some v \<and> \<not> ToBoolean v)) \<and> bs = [])
           \<or> map_of sec ''blocks'' = Some (JArr bs)"
  shows "section_parse fs allPaths random args =
           Inr \<lparr>namestr = args,
                template = template_of args,
                sectionData = JObj (AList.update ''section'' (JObj (stamped_section random sec bs)) kvs)\<rparr>"
  using assms(1-4) stamp_section_object[OF assms(5,6), of random]
  by (simp add: section_parse_def Let_def)

lemma stamped_id: "map_of (stamped_section random sec bs) ''id'' = Some (JStr (random 0))"
  by (simp add: stamped_section_def map_of_update)

lemma stamped_blocks: "map_of (stamped_section random sec bs) ''blocks'' = Some (JArr (stamp_blocks random 1 bs))"
  by (simp add: stamped_section_def map_of_update)

lemma stamped_other:
  "k \<noteq> ''id'' \<Longrightarrow> k \<noteq> ''blocks'' \<Longrightarrow> map_of (stamped_section random sec bs) k = map_of sec k"
  by (simp add: stamped_section_def map_of_update)

text \<open>
  C6 (as amended). When no sidecar file is found the section data is the empty object and
  the parse raises nothing. When a sidecar is loaded whose \<open>section\<close> is an object and
  whose \<open>blocks\<close> is absent, falsy or an array, the parse succeeds: \<open>section.id\<close> is set
  to the first identifier drawn, \<open>section.blocks\<close> is set to the array of the stamped
  entries (the empty array when \<open>blocks\<close> was absent or falsy), the \<open>i\<close>-th entry being
  the spread of the loaded entry with \<open>id\<close> set to the identifier drawn for it, and every
  other property of the loaded object, of its \<open>section\<close> and of each entry is as loaded.
\<close>

theorem section_parse_frame:
  "(find_sidecar fs (interpolate (template_of args) @ ''.json'') allPaths = None \<longrightarrow>
      section_parse fs allPaths random args =
        Inr \<lparr>namestr = args, template = template_of args, sectionData = JObj []\<rparr>) \<and>
   (find_sidecar fs (interpolate (template_of args) @ ''.json'') allPaths = Some path \<and>
    path \<noteq> [] \<and> readFileSync fs path = Inr raw \<and> JSON_parse fs raw = Inr (JObj kvs) \<and>
    map_of kvs ''section'' = Some (JObj sec) \<and>
    (((map_of sec ''blocks'' = None \<or> (\<exists>v. map_of sec ''blocks'' = Some v \<and> \<not> ToBoolean v)) \<and> bs = [])
      \<or> map_of sec ''blocks'' = Some (JArr bs)) \<longrightarrow>
      (\<exists>sec' bs'.
         section_parse fs allPaths random args =
           Inr \<lparr>namestr = args, template = template_of args,
                sectionData = JObj (AList.update ''section'' (JObj sec') kvs)\<rparr> \<and>
         (\<forall>k. k \<noteq> ''section'' \<longrightarrow>
              map_of (AList.update ''section'' (JObj sec') kvs) k = map_of kvs k) \<and>
         map_of sec' ''id'' = Some (JStr (random 0)) \<and>
         map_of sec' ''blocks'' = Some (JArr bs') \<and>
         (\<forall>k. k \<noteq> ''id'' \<and> k \<noteq> ''blocks'' \<longrightarrow> map_of sec' k = map_of sec k) \<and>
         length bs' = length bs \<and>
         (\<forall>i < length bs. \<exists>props.
              bs' ! i = JObj props \<and>
              map_of props ''id'' = Some (JStr (random (Suc i))) \<and>
              (\<forall>k. k \<noteq> ''id'' \<longrightarrow> map_of props k = map_of (spread (bs ! i)) k))))"
proof (intro conjI impI)
  assume "find_sidecar fs (interpolate (template_of args) @ ''.json'') allPaths = None"
  then show "section_parse fs allPaths random args =
        Inr \<lparr>namestr = args, template = template_of args, sectionData = JObj []\<rparr>"
    by (simp add: section_parse_def Let_def)
next
  assume h: "find_sidecar fs (interpolate (template_of args) @ ''.json'') allPaths = Some path \<and>
    path \<noteq> [] \<and> readFileSync fs path = Inr raw \<and> JSON_parse fs raw = Inr (JObj kvs) \<and>
    map_of kvs ''section'' = Some (JObj sec) \<and>
    (((map_of sec ''blocks'' = None \<or> (\<exists>v. map_of sec ''blocks'' = Some v \<and> \<not> ToBoolean v)) \<and> bs = [])
      \<or> map_of sec ''blocks'' = Some (JArr bs))"
  let ?sec = "stamped_section random sec bs"
  let ?bs = "stamp_blocks random 1 bs"
  have parse: "section_parse fs allPaths random args =
           Inr \<lparr>namestr = args, template = template_of args,
                sectionData = JObj (AList.update ''section'' (JObj ?sec) kvs)\<rparr>"
    using h by (intro section_parse_loaded) blast+
  have top: "\<forall>k. k \<noteq> ''section'' \<longrightarrow>
              map_of (AList.update ''section'' (JObj ?sec) kvs) k = map_of kvs k"
    by (simp add: map_of_update)
  have other: "\<forall>k. k \<noteq> ''id'' \<and> k \<noteq> ''blocks'' \<longrightarrow> map_of ?sec k = map_of sec k"
    by (simp add: stamped_other)
  have entries: "\<forall>i < length bs. \<exists>props.
              ?bs ! i = JObj props \<and>
              map_of props ''id'' = Some (JStr (random (Suc i))) \<and>
              (\<forall>k. k \<noteq> ''id'' \<longrightarrow> map_of props k = map_of (spread (bs ! i)) k)"
    by (simp add: stamp_blocks_nth map_of_update)
  from parse top other entries stamped_id[of random sec bs] stamped_blocks[of random sec bs]
    stamp_blocks_length[of random 1 bs]
  show "\<exists>sec' bs'.
         section_parse fs allPaths random args =
           Inr \<lparr>namestr = args, template = template_of args,
                sectionData = JObj (AList.update ''section'' (JObj sec') kvs)\<rparr> \<and>
         (\<forall>k. k \<noteq> ''section'' \<longrightarrow>
              map_of (AList.update ''section'' (JObj sec') kvs) k = map_of kvs k) \<and>
         map_of sec' ''id'' = Some (JStr (random 0)) \<and>
         map_of sec' ''blocks'' = Some (JArr bs') \<and>
         (\<forall>k. k \<noteq> ''id'' \<and> k \<noteq> ''blocks'' \<longrightarrow> map_of sec' k = map_of sec k) \<and>
         length bs' = length bs \<and>
         (\<forall>i < length bs. \<exists>props.
              bs' ! i = JObj props \<and>
              map_of props ''id'' = Some (JStr (random (Suc i))) \<and>
              (\<forall>k. k \<noteq> ''id'' \<longrightarrow> map_of props k = map_of (spread (bs ! i)) k))"
    by blast
qed

theorem section_parse_frame_witness:
  "section_parse
     \<lparr>cwd = ''/site'', path_join = concat, existsSync = (\<lambda>p. False),
      readFileSync = (\<lambda>p. Inl (HostError ''ENOENT'')), JSON_parse = (\<lambda>t. Inl (HostError ''JSON''))\<rparr>
     [''/sections/''] (\<lambda>k. ''r'' @ index_key k) ([CHR 0x27] @ ''hero'' @ [CHR 0x27])
   = Inr \<lparr>namestr = [CHR 0x27] @ ''hero'' @ [CHR 0x27], template = Some ''hero'',
          sectionData = JObj []\<rparr> \<and>
   section_parse
     \<lparr>cwd = ''/site'', path_join = concat, existsSync = (\<lambda>p. p = ''/site/sections/hero.json''),
      readFileSync = (\<lambda>p. Inr ''sidecar''),
      JSON_parse = (\<lambda>t. Inr (JObj
        [(''title'', JStr ''Home''),
         (''section'', JObj [(''id'', JStr ''stale''), (''heading'', JStr ''Hi''),
                            (''blocks'', JArr [JObj [(''type'', JStr ''slide'')],
                                              JObj [(''id'', JStr ''b''), (''type'', JStr ''quote'')]])])]))\<rparr>
     [''/sections/''] (\<lambda>k. ''r'' @ index_key k) ([CHR 0x27] @ ''hero'' @ [CHR 0x27])
   = Inr \<lparr>namestr = [CHR 0x27] @ ''hero'' @ [CHR 0x27], template = Some ''hero'',
          sectionData = JObj
            [(''title'', JStr ''Home''),
             (''section'', JObj [(''id'', JStr ''r0''), (''heading'', JStr ''Hi''),
                (''blocks'', JArr [JObj [(''type'', JStr ''slide''), (''id'', JStr ''r1'')],
                                  JObj [(''id'', JStr ''r2''), (''type'', JStr ''quote'')]])])]\<rparr>"
  using section_parse_frame
    [where fs = "\<lparr>cwd = ''/site'', path_join = concat, existsSync = (\<lambda>p. False),
          readFileSync = (\<lambda>p. Inl (HostError ''ENOENT'')), JSON_parse = (\<lambda>t. Inl (HostError ''JSON''))\<rparr>"
       and args = "[CHR 0x27] @ ''hero'' @ [CHR 0x27]" and allPaths = "[''/sections/'']"
       and random = "(\<lambda>k. ''r'' @ index_key k)"]
    section_parse_frame
    [where fs = "\<lparr>cwd = ''/site'', path_join = concat, existsSync = (\<lambda>p. p = ''/site/sections/hero.json''),
      readFileSync = (\<lambda>p. Inr ''sidecar''),
      JSON_parse = (\<lambda>t. Inr (JObj
        [(''title'', JStr ''Home''),
         (''section'', JObj [(''id'', JStr ''stale''), (''heading'', JStr ''Hi''),
                            (''blocks'', JArr [JObj [(''type'', JStr ''slide'')],
                                              JObj [(''id'', JStr ''b''), (''type'', JStr ''quote'')]])])]))\<rparr>"
       and args = "[CHR 0x27] @ ''hero'' @ [CHR 0x27]" and allPaths = "[''/sections/'']"
       and random = "(\<lambda>k. ''r'' @ index_key k)"
       and path = "''/site/sections/hero.json''" and raw = "''sidecar''"
       and kvs = "[(''title'', JStr ''Home''),
         (''section'', JObj [(''id'', JStr ''stale''), (''heading'', JStr ''Hi''),
                            (''blocks'', JArr [JObj [(''type'', JStr ''slide'')],
                                              JObj [(''id'', JStr ''b''), (''type'', JStr ''quote'')]])])]"
       and sec = "[(''id'', JStr ''stale''), (''heading'', JStr ''Hi''),
                            (''blocks'', JArr [JObj [(''type'', JStr ''slide'')],
                                              JObj [(''id'', JStr ''b''), (''type'', JStr ''quote'')]])]"
       and bs = "[JObj [(''type'', JStr ''slide'')], JObj [(''id'', JStr ''b''), (''type'', JStr ''quote'')]]"]
  by (simp add: eval_quoted interpolate_def section_parse_def stamp_blocks_of_def)

text \<open>
  The claim as stated fails for a \<open>section\<close> object whose \<open>blocks\<close> is not an array: a
  \<open>blocks\<close> that is \<open>null\<close> does not pass through but is replaced by the empty array,
  and a \<open>blocks\<close> that is an object makes the parse raise a TypeError.
\<close>

theorem section_parse_frame_counterexample:
  "section_parse
     \<lparr>cwd = ''/site'', path_join = concat, existsSync = (\<lambda>p. p = ''/site/sections/hero.json''),
      readFileSync = (\<lambda>p. Inr ''sidecar''),
      JSON_parse = (\<lambda>t. Inr (JObj [(''section'', JObj [(''heading'', JStr ''Hi''), (''blocks'', JNull)])]))\<rparr>
     [''/sections/''] (\<lambda>k. ''r'' @ index_key k) ([CHR 0x27] @ ''hero'' @ [CHR 0x27])
   = Inr \<lparr>namestr = [CHR 0x27] @ ''hero'' @ [CHR 0x27], template = Some ''hero'',
          sectionData = JObj [(''section'', JObj [(''heading'', JStr ''Hi''), (''blocks'', JArr []),
                                                  (''id'', JStr ''r0'')])]\<rparr> \<and>
   JArr [] \<noteq> JNull \<and>
   section_parse
     \<lparr>cwd = ''/site'', path_join = concat, existsSync = (\<lambda>p. p = ''/site/sections/hero.json''),
      readFileSync = (\<lambda>p. Inr ''sidecar''),
      JSON_parse = (\<lambda>t. Inr (JObj [(''section'', JObj [(''heading'', JStr ''Hi''),
                                                         (''blocks'', JObj [(''a'', JObj [])])])]))\<rparr>
     [''/sections/''] (\<lambda>k. ''r'' @ index_key k) ([CHR 0x27] @ ''hero'' @ [CHR 0x27])
   = Inl TypeError"
  by (simp add: eval_quoted interpolate_def section_parse_def stamp_blocks_of_def)

section \<open>Properties of the section identifiers\<close>

text \<open>
  C1 (as amended). The identifiers are stamped by the parse routine of the section tag,
  not by its render routine. Two parses of one section tag occurrence over the same
  sidecar (its \<open>section\<close> an object, its \<open>blocks\<close> absent, falsy or an array) both
  succeed; \<open>section.id\<close> is the first identifier drawn and \<open>blocks[i].id\<close> the one drawn
  for entry \<open>i\<close>, so that they differ between the two parses exactly when the draws
  differ; every other metadata field is the same in both. The render routine leaves the
  tag instance as it is, and a second invocation on it gives what the first gave.
\<close>

theorem section_ids_stamped_at_parse:
  "(find_sidecar fs (interpolate (template_of args) @ ''.json'') allPaths = Some path \<and>
    path \<noteq> [] \<and> readFileSync fs path = Inr raw \<and> JSON_parse fs raw = Inr (JObj kvs) \<and>
    map_of kvs ''section'' = Some (JObj sec) \<and>
    (((map_of sec ''blocks'' = None \<or> (\<exists>v. map_of sec ''blocks'' = Some v \<and> \<not> ToBoolean v)) \<and> bs = [])
      \<or> map_of sec ''blocks'' = Some (JArr bs)) \<longrightarrow>
      (\<exists>sec1 sec2 bs1 bs2.
         section_parse fs allPaths random1 args =
           Inr \<lparr>namestr = args, template = template_of args,
                sectionData = JObj (AList.update ''section'' (JObj sec1) kvs)\<rparr> \<and>
         section_parse fs allPaths random2 args =
           Inr \<lparr>namestr = args, template = template_of args,
                sectionData = JObj (AList.update ''section'' (JObj sec2) kvs)\<rparr> \<and>
         map_of sec1 ''id'' = Some (JStr (random1 0)) \<and>
         map_of sec2 ''id'' = Some (JStr (random2 0)) \<and>
         ((map_of sec1 ''id'' = map_of sec2 ''id'') = (random1 0 = random2 0)) \<and>
         (\<forall>k. k \<noteq> ''id'' \<and> k \<noteq> ''blocks'' \<longrightarrow> map_of sec1 k = map_of sec2 k) \<and>
         map_of sec1 ''blocks'' = Some (JArr bs1) \<and> map_of sec2 ''blocks'' = Some (JArr bs2) \<and>
         length bs1 = length bs \<and> length bs2 = length bs \<and>
         (\<forall>i < length bs. \<exists>props1 props2.
              bs1 ! i = JObj props1 \<and> bs2 ! i = JObj props2 \<and>
              map_of props1 ''id'' = Some (JStr (random1 (Suc i))) \<and>
              map_of props2 ''id'' = Some (JStr (random2 (Suc i))) \<and>
              ((map_of props1 ''id'' = map_of props2 ''id'') = (random1 (Suc i) = random2 (Suc i))) \<and>
              (\<forall>k. k \<noteq> ''id'' \<longrightarrow> map_of props1 k = map_of props2 k)))) \<and>
   fst (section_render engine parse nts ext this) = this \<and>
   section_render engine parse nts ext (fst (section_render engine parse nts ext this)) =
     section_render engine parse nts ext this"
proof (intro conjI impI)
  assume h: "find_sidecar fs (interpolate (template_of args) @ ''.json'') allPaths = Some path \<and>
    path \<noteq> [] \<and> readFileSync fs path = Inr raw \<and> JSON_parse fs raw = Inr (JObj kvs) \<and>
    map_of kvs ''section'' = Some (JObj sec) \<and>
    (((map_of sec ''blocks'' = None \<or> (\<exists>v. map_of sec ''blocks'' = Some v \<and> \<not> ToBoolean v)) \<and> bs = [])
      \<or> map_of sec ''blocks'' = Some (JArr bs))"
  let ?s1 = "stamped_section random1 sec bs" and ?s2 = "stamped_section random2 sec bs"
  let ?b1 = "stamp_blocks random1 1 bs" and ?b2 = "stamp_blocks random2 1 bs"
  have p1: "section_parse fs allPaths random1 args =
           Inr \<lparr>namestr = args, template = template_of args,
                sectionData = JObj (AList.update ''section'' (JObj ?s1) kvs)\<rparr>"
    using h by (intro section_parse_loaded) blast+
  have p2: "section_parse fs allPaths random2 args =
           Inr \<lparr>namestr = args, template = template_of args,
                sectionData = JObj (AList.update ''section'' (JObj ?s2) kvs)\<rparr>"
    using h by (intro section_parse_loaded) blast+
  have ids: "(map_of ?s1 ''id'' = map_of ?s2 ''id'') = (random1 0 = random2 0)"
    by (simp add: stamped_id)
  have other: "\<forall>k. k \<noteq> ''id'' \<and> k \<noteq> ''blocks'' \<longrightarrow> map_of ?s1 k = map_of ?s2 k"
    by (simp add: stamped_other)
  have entries: "\<forall>i < length bs. \<exists>props1 props2.
              ?b1 ! i = JObj props1 \<and> ?b2 ! i = JObj props2 \<and>
              map_of props1 ''id'' = Some (JStr (random1 (Suc i))) \<and>
              map_of props2 ''id'' = Some (JStr (random2 (Suc i))) \<and>
              ((map_of props1 ''id'' = map_of props2 ''id'') = (random1 (Suc i) = random2 (Suc i))) \<and>
              (\<forall>k. k \<noteq> ''id'' \<longrightarrow> map_of props1 k = map_of props2 k)"
    by (simp add: stamp_blocks_nth map_of_update)
  from p1 p2 ids other entries
    stamped_id[of random1 sec bs] stamped_id[of random2 sec bs]
    stamped_blocks[of random1 sec bs] stamped_blocks[of random2 sec bs]
    stamp_blocks_length[of random1 1 bs] stamp_blocks_length[of random2 1 bs]
  show "\<exists>sec1 sec2 bs1 bs2.
         section_parse fs allPaths random1 args =
           Inr \<lparr>namestr = args, template = template_of args,
                sectionData = JObj (AList.update ''section'' (JObj sec1) kvs)\<rparr> \<and>
         section_parse fs allPaths random2 args =
           Inr \<lparr>namestr = args, template = template_of args,
                sectionData = JObj (AList.update ''section'' (JObj sec2) kvs)\<rparr> \<and>
         map_of sec1 ''id'' = Some (JStr (random1 0)) \<and>
         map_of sec2 ''id'' = Some (JStr (random2 0)) \<and>
         ((map_of sec1 ''id'' = map_of sec2 ''id'') = (random1 0 = random2 0)) \<and>
         (\<forall>k. k \<noteq> ''id'' \<and> k \<noteq> ''blocks'' \<longrightarrow> map_of sec1 k = map_of sec2 k) \<and>
         map_of sec1 ''blocks'' = Some (JArr bs1) \<and> map_of sec2 ''blocks'' = Some (JArr bs2) \<and>
         length bs1 = length bs \<and> length bs2 = length bs \<and>
         (\<forall>i < length bs. \<exists>props1 props2.
              bs1 ! i = JObj props1 \<and> bs2 ! i = JObj props2 \<and>
              map_of props1 ''id'' = Some (JStr (random1 (Suc i))) \<and>
              map_of props2 ''id'' = Some (JStr (random2 (Suc i))) \<and>
              ((map_of props1 ''id'' = map_of props2 ''id'') = (random1 (Suc i) = random2 (Suc i))) \<and>
              (\<forall>k. k \<noteq> ''id'' \<longrightarrow> map_of props1 k = map_of props2 k))"
    by blast
next
  show "fst (section_render engine parse nts ext this) = this"
    by (simp add: section_render_def)
  show "section_render engine parse nts ext (fst (section_render engine parse nts ext this)) =
     section_render engine parse nts ext this"
    by (simp add: section_render_def)
qed

theorem section_ids_stamped_at_parse_witness:
  "section_parse
     \<lparr>cwd = ''/site'', path_join = concat, existsSync = (\<lambda>p. p = ''/site/sections/hero.json''),
      readFileSync = (\<lambda>p. Inr ''sidecar''),
      JSON_parse = (\<lambda>t. Inr (JObj
        [(''section'', JObj [(''heading'', JStr ''Hi''),
                            (''blocks'', JArr [JObj [(''type'', JStr ''slide'')]])])]))\<rparr>
     [''/sections/''] (\<lambda>k. ''a'' @ index_key k) ([CHR 0x27] @ ''hero'' @ [CHR 0x27])
   = Inr \<lparr>namestr = [CHR 0x27] @ ''hero'' @ [CHR 0x27], template = Some ''hero'',
          sectionData = JObj
            [(''section'', JObj [(''heading'', JStr ''Hi''),
                (''blocks'', JArr [JObj [(''type'', JStr ''slide''), (''id'', JStr ''a1'')]]),
                (''id'', JStr ''a0'')])]\<rparr> \<and>
   section_parse
     \<lparr>cwd = ''/site'', path_join = concat, existsSync = (\<lambda>p. p = ''/site/sections/hero.json''),
      readFileSync = (\<lambda>p. Inr ''sidecar''),
      JSON_parse = (\<lambda>t. Inr (JObj
        [(''section'', JObj [(''heading'', JStr ''Hi''),
                            (''blocks'', JArr [JObj [(''type'', JStr ''slide'')]])])]))\<rparr>
     [''/sections/''] (\<lambda>k. ''b'' @ index_key k) ([CHR 0x27] @ ''hero'' @ [CHR 0x27])
   = Inr \<lparr>namestr = [CHR 0x27] @ ''hero'' @ [CHR 0x27], template = Some ''hero'',
          sectionData = JObj
            [(''section'', JObj [(''heading'', JStr ''Hi''),
                (''blocks'', JArr [JObj [(''type'', JStr ''slide''), (''id'', JStr ''b1'')]]),
                (''id'', JStr ''b0'')])]\<rparr>"
  using section_ids_stamped_at_parse
    [where fs = "\<lparr>cwd = ''/site'', path_join = concat, existsSync = (\<lambda>p. p = ''/site/sections/hero.json''),
      readFileSync = (\<lambda>p. Inr ''sidecar''),
      JSON_parse = (\<lambda>t. Inr (JObj
        [(''section'', JObj [(''heading'', JStr ''Hi''),
                            (''blocks'', JArr [JObj [(''type'', JStr ''slide'')]])])]))\<rparr>"
       and args = "[CHR 0x27] @ ''hero'' @ [CHR 0x27]" and allPaths = "[''/sections/'']"
       and ?random1.0 = "(\<lambda>k. ''a'' @ index_key k)" and ?random2.0 = "(\<lambda>k. ''b'' @ index_key k)"
       and path = "''/site/sections/hero.json''" and raw = "''sidecar''"
       and kvs = "[(''section'', JObj [(''heading'', JStr ''Hi''),
                            (''blocks'', JArr [JObj [(''type'', JStr ''slide'')]])])]"
       and sec = "[(''heading'', JStr ''Hi''), (''blocks'', JArr [JObj [(''type'', JStr ''slide'')]])]"
       and bs = "[JObj [(''type'', JStr ''slide'')]]"]
  by (simp add: eval_quoted interpolate_def section_parse_def stamp_blocks_of_def)


text \<open>
  The claim as stated fails: the render routine draws no identifier. A tag instance parsed
  with the identifiers \<open>a0\<close> and \<open>a1\<close> still carries them after a render, so a second
  invocation of the render routine hands the variant the same \<open>section.id\<close> and the
  same \<open>blocks[0].id\<close> as the first.
\<close>

lemma toLowerCase_Hero: "toLowerCase ''Hero'' = ''hero''"
  by code_simp

theorem section_render_reuses_ids_counterexample:
  \<open>section_parse
     \<lparr>cwd = ''/site'', path_join = concat, existsSync = (\<lambda>p. p = ''/site/sections/hero.json''),
      readFileSync = (\<lambda>p. Inr ''sidecar''),
      JSON_parse = (\<lambda>t. Inr (JObj
        [(''section'', JObj [(''blocks'', JArr [JObj [(''type'', JStr ''slide'')]])])]))\<rparr>
     [''/sections/''] (\<lambda>k. ''a'' @ index_key k) ([CHR 0x27] @ ''hero'' @ [CHR 0x27])
   = Inr \<lparr>namestr = [CHR 0x27] @ ''hero'' @ [CHR 0x27], template = Some ''hero'',
          sectionData = JObj
            [(''section'', JObj [(''blocks'', JArr [JObj [(''type'', JStr ''slide''), (''id'', JStr ''a1'')]]),
                                (''id'', JStr ''a0'')])]\<rparr> \<and>
   sectionData (fst (section_render
      \<lparr>parseAndRender = (\<lambda>t scope opts. Inr t),
       renderFile = (\<lambda>f d. Inr ''<script id="schema" type="application/json">{"name":"Hero"}</script>'')\<rparr>
      (\<lambda>t. if t = ''{"name":"Hero"}'' then Inr (JObj [(''name'', JStr ''Hero'')])
            else Inl (HostError ''SyntaxError''))
      (\<lambda>n. ''0'') (Some ''liquid'')
      \<lparr>namestr = [CHR 0x27] @ ''hero'' @ [CHR 0x27], template = Some ''hero'',
          sectionData = JObj
            [(''section'', JObj [(''blocks'', JArr [JObj [(''type'', JStr ''slide''), (''id'', JStr ''a1'')]]),
                                (''id'', JStr ''a0'')])]\<rparr>))
   = JObj [(''section'', JObj [(''blocks'', JArr [JObj [(''type'', JStr ''slide''), (''id'', JStr ''a1'')]]),
                              (''id'', JStr ''a0'')])] \<and>
   snd (section_render
      \<lparr>parseAndRender = (\<lambda>t scope opts. Inr t),
       renderFile = (\<lambda>f d. Inr ''<script id="schema" type="application/json">{"name":"Hero"}</script>'')\<rparr>
      (\<lambda>t. if t = ''{"name":"Hero"}'' then Inr (JObj [(''name'', JStr ''Hero'')])
            else Inl (HostError ''SyntaxError''))
      (\<lambda>n. ''0'') (Some ''liquid'')
      \<lparr>namestr = [CHR 0x27] @ ''hero'' @ [CHR 0x27], template = Some ''hero'',
          sectionData = JObj
            [(''section'', JObj [(''blocks'', JArr [JObj [(''type'', JStr ''slide''), (''id'', JStr ''a1'')]]),
                                (''id'', JStr ''a0'')])]\<rparr>)
   = Inr ''<div id="shopify-section-hero" class="shopify-section"><script id="schema" type="application/json">{"name":"Hero"}</script></div>''\<close>
  by (simp add: eval_quoted interpolate_def section_parse_def stamp_blocks_of_def section_render_def
      render_section_def match_schema_def split_last_def schema_open_def script_close_def
      call_toLowerCase_def toLowerCase_Hero slug_unit_def trim_hyphens_def)

section \<open>Properties of the extracted template name\<close>

lemma slice_1_m1_inner: "slice_1_m1 (c # mid @ [d]) = mid"
  by (simp add: slice_1_m1_def)

lemma two_ends: "2 \<le> length s \<Longrightarrow> \<exists>c mid d. s = c # mid @ [d]"
proof -
  assume h: "2 \<le> length s"
  then obtain c t where s: "s = c # t" by (cases s) auto
  with h have "t \<noteq> []" by auto
  then obtain mid d where "t = mid @ [d]" by (metis rev_exhaust)
  with s show ?thesis by blast
qed


text \<open>
  C9. The quoted-argument test accepts exactly the arguments that begin with a complete
  single-quoted segment or end with a complete double-quoted segment, whatever the rest of
  the argument is. Whenever it accepts, the template name is the argument without its
  first and its last character: the section parse stores that name, and the stylesheet
  render hands that text to the engine. For the argument \<^verbatim>\<open>'foo' bar\<close> the name is
  \<^verbatim>\<open>foo' ba\<close>.
\<close>

theorem quoted_accepts_loosely:
  "(regex_exec quoted s =
     ((\<exists>a b. s = [CHR 0x27] @ a @ [CHR 0x27] @ b \<and> CHR 0x27 \<notin> set a) \<or>
      (\<exists>a b. s = a @ [CHR 0x22] @ b @ [CHR 0x22] \<and> CHR 0x22 \<notin> set b))) \<and>
   (regex_exec quoted s \<longrightarrow>
      (\<exists>c mid d. s = [c] @ mid @ [d] \<and> template_of s = Some mid)) \<and>
   (section_parse fs allPaths random s = Inr this \<longrightarrow> template this = template_of s) \<and>
   (regex_exec quoted (processor tag) \<and>
    parseAndRender engine (slice_1_m1 (processor tag)) scope opts = Inl e \<longrightarrow>
      stylesheet_render engine renderSass scope opts tag = Inl e) \<and>
   regex_exec quoted ([CHR 0x27] @ ''foo'' @ [CHR 0x27] @ '' bar'') \<and>
   template_of ([CHR 0x27] @ ''foo'' @ [CHR 0x27] @ '' bar'') = Some (''foo'' @ [CHR 0x27] @ '' ba'')"
proof (intro conjI impI)
  show "regex_exec quoted s =
     ((\<exists>a b. s = [CHR 0x27] @ a @ [CHR 0x27] @ b \<and> CHR 0x27 \<notin> set a) \<or>
      (\<exists>a b. s = a @ [CHR 0x22] @ b @ [CHR 0x22] \<and> CHR 0x22 \<notin> set b))"
    by (simp add: quoted_exec_iff)
next
  assume q: "regex_exec quoted s"
  then have "2 \<le> length s"
    by (auto simp: quoted_exec_iff)
  then obtain c mid d where s: "s = c # mid @ [d]"
    using two_ends by blast
  have "template_of s = Some mid"
    using q unfolding template_of_def s by (simp add: slice_1_m1_inner)
  with s show "\<exists>c mid d. s = [c] @ mid @ [d] \<and> template_of s = Some mid"
    by auto
next
  assume "section_parse fs allPaths random s = Inr this"
  then show "template this = template_of s"
    by (auto simp: section_parse_def Let_def split: option.splits sum.splits if_splits)
next
  assume "regex_exec quoted (processor tag) \<and>
    parseAndRender engine (slice_1_m1 (processor tag)) scope opts = Inl e"
  then show "stylesheet_render engine renderSass scope opts tag = Inl e"
    by (simp add: stylesheet_render_def)
next
  show "regex_exec quoted ([CHR 0x27] @ ''foo'' @ [CHR 0x27] @ '' bar'')"
    by (simp add: eval_quoted)
  show "template_of ([CHR 0x27] @ ''foo'' @ [CHR 0x27] @ '' bar'') = Some (''foo'' @ [CHR 0x27] @ '' ba'')"
    by (simp add: eval_quoted)
qed


theorem quoted_accepts_loosely_witness:
  "regex_exec quoted (''x '' @ [CHR 0x22] @ ''hero'' @ [CHR 0x22]) \<and>
   template_of (''x '' @ [CHR 0x22] @ ''hero'' @ [CHR 0x22]) = Some ('' '' @ [CHR 0x22] @ ''hero'') \<and>
   section_parse
     \<lparr>cwd = ''/site'', path_join = concat, existsSync = (\<lambda>p. False),
      readFileSync = (\<lambda>p. Inl (HostError ''ENOENT'')), JSON_parse = (\<lambda>t. Inl (HostError ''JSON''))\<rparr>
     [''/sections/''] (\<lambda>k. ''r'') (''x '' @ [CHR 0x22] @ ''hero'' @ [CHR 0x22])
   = Inr \<lparr>namestr = ''x '' @ [CHR 0x22] @ ''hero'' @ [CHR 0x22],
          template = Some ('' '' @ [CHR 0x22] @ ''hero''), sectionData = JObj []\<rparr> \<and>
   stylesheet_render
     \<lparr>parseAndRender = (\<lambda>t scope opts. Inl (Error t)), renderFile = (\<lambda>f d. Inr [])\<rparr>
     (\<lambda>t. Inr t) (JObj []) (JObj [])
     \<lparr>tokens = [], processor = ''x '' @ [CHR 0x22] @ ''hero'' @ [CHR 0x22]\<rparr>
   = Inl (Error ('' '' @ [CHR 0x22] @ ''hero''))"
  using quoted_accepts_loosely
    [where s = "''x '' @ [CHR 0x22] @ ''hero'' @ [CHR 0x22]"
       and fs = "\<lparr>cwd = ''/site'', path_join = concat, existsSync = (\<lambda>p. False),
      readFileSync = (\<lambda>p. Inl (HostError ''ENOENT'')), JSON_parse = (\<lambda>t. Inl (HostError ''JSON''))\<rparr>"
       and allPaths = "[''/sections/'']" and random = "(\<lambda>k. ''r'')"
       and this = "\<lparr>namestr = ''x '' @ [CHR 0x22] @ ''hero'' @ [CHR 0x22],
          template = Some ('' '' @ [CHR 0x22] @ ''hero''), sectionData = JObj []\<rparr>"
       and tag = "\<lparr>tokens = [], processor = ''x '' @ [CHR 0x22] @ ''hero'' @ [CHR 0x22]\<rparr>"
       and engine = "\<lparr>parseAndRender = (\<lambda>t scope opts. Inl (Error t)), renderFile = (\<lambda>f d. Inr [])\<rparr>"
       and scope = "JObj []" and opts = "JObj []" and e = "Error ('' '' @ [CHR 0x22] @ ''hero'')"
       and renderSass = "(\<lambda>t. Inr t)"]
  by (simp add: eval_quoted section_parse_def interpolate_def stylesheet_render_def)

section \<open>Properties of the name extractors\<close>

subsection \<open>Replacing the first occurrence\<close>



lemma replace_first_skip:
  "take (length p) (c # s) \<noteq> p \<Longrightarrow> replace_first p [] (c # s) = c # replace_first p [] s"
  by (simp add: replace_first_def split: option.splits)

lemma replace_first_skip_unit:
  "p \<noteq> [] \<Longrightarrow> hd p \<noteq> c \<Longrightarrow> replace_first p [] (c # s) = c # replace_first p [] s"
  by (rule replace_first_skip) (cases p; auto)

lemma replace_first_skip_units:
  "p \<noteq> [] \<Longrightarrow> hd p \<notin> set a \<Longrightarrow> replace_first p [] (a @ s) = a @ replace_first p [] s"
  by (induction a) (simp_all add: replace_first_skip_unit)

lemma replace_first_Nil: "p \<noteq> [] \<Longrightarrow> replace_first p [] [] = []"
  by (simp add: replace_first_def)

lemma replace_first_absent:
  "p \<noteq> [] \<Longrightarrow> hd p \<notin> set a \<Longrightarrow> replace_first p [] a = a"
  using replace_first_skip_units[of p a "[]"] by (simp add: replace_first_Nil)


subsection \<open>The four replacements\<close>




subsection \<open>What is left of the tail\<close>





subsection \<open>The cut at the parenthesis and at the colon\<close>







subsection \<open>The pattern-based extractor\<close>




















end
